theory Spec2Isabelle
  imports Complex_Main
begin

section \<open>Data model\<close>

text \<open>
  The three collaborating objects of the trading bot (\<^verbatim>\<open>BrokerConnection\<close>,
  \<^verbatim>\<open>PriceMonitor\<close>, \<^verbatim>\<open>TradeExecutor\<close>) share one broker and are modelled as one
  state record that every method takes and returns. Python floats are modelled as
  \<^typ>\<open>real\<close> (the code only compares them; NaN and infinities are outside the model).
  Logger calls have no effect on the state and are left out. The model runs one method
  at a time: what a method does is recorded in a trace of events, and interleavings of
  the monitoring thread with other callers are outside the model.
\<close>

type_synonym symbol = string

text \<open>
  A quote is the dict returned by \<^verbatim>\<open>BrokerConnection.get_price\<close>: keys \<^verbatim>\<open>bid\<close>, \<^verbatim>\<open>ask\<close> and
  \<^verbatim>\<open>time\<close>. \<^verbatim>\<open>PriceMonitor.get_price\<close> tests whether \<^verbatim>\<open>time\<close> is present, so that key is
  optional in the model.
\<close>

record quote =
  bid :: real
  ask :: real
  qtime :: "real option"

text \<open>\<^verbatim>\<open>class OrderType(Enum)\<close> of \<^verbatim>\<open>core/broker.py\<close>.\<close>

datatype OrderType = BUY | SELL

text \<open>
  \<^verbatim>\<open>TradeInstruction\<close> and \<^verbatim>\<open>ActiveTrade\<close> are imported by the executor but their class
  bodies are not part of the sources at hand. Their fields are the keyword arguments the
  executor passes to the constructors.

  Modelled from the spec: the \<^verbatim>\<open>id\<close> of a \<^verbatim>\<open>TradeInstruction\<close>, which the constructor
  assigns itself; the data model calls it unique and monotonic, so it is drawn from a
  counter (\<open>next_id\<close> below).
\<close>

record TradeInstruction =
  ti_id :: nat
  ti_symbol :: symbol
  ti_entry_price :: real
  ti_exit_price :: real
  ti_stop_loss :: real
  ti_lot_size :: real
  ti_direction :: string
  ti_comment :: string

record ActiveTrade =
  at_ticket :: int
  at_symbol :: symbol
  at_entry_price :: real
  at_exit_price :: real
  at_stop_loss :: real
  at_lot_size :: real
  at_direction :: string
  at_comment :: string
  at_entry_time :: real

text \<open>
  A position as returned by \<^verbatim>\<open>broker.get_positions()\<close>. The monitor reads \<^verbatim>\<open>symbol\<close> by
  index and \<^verbatim>\<open>type\<close>, \<^verbatim>\<open>take_profit\<close>, \<^verbatim>\<open>stop_loss\<close> with \<^verbatim>\<open>dict.get\<close>, so the latter
  three may be absent; the executor reads \<^verbatim>\<open>ticket\<close> by index.
\<close>

record position =
  pos_ticket :: int
  pos_symbol :: symbol
  pos_type :: "string option"
  pos_take_profit :: "real option"
  pos_stop_loss :: "real option"

text \<open>The arguments of one \<^verbatim>\<open>place_market_order\<close> call.\<close>

record order_request =
  or_symbol :: symbol
  or_order_type :: OrderType
  or_lot_size :: real
  or_stop_loss :: real
  or_take_profit :: real
  or_comment :: string

text \<open>
  What one thread of control does that another party can observe: taking and releasing
  \<^verbatim>\<open>trade_lock\<close>, every call into the broker, and every \<^verbatim>\<open>time.sleep\<close>.
\<close>

datatype event =
    LockAcquire
  | LockRelease
  | IsConnected
  | GetPrice symbol
  | GetPositions
  | PlaceMarketOrder order_request
  | ClosePosition int
  | Sleep real

text \<open>
  The broker answers from the trading terminal, which is outside the program. It is a
  parameter: a state of any type \<open>'b\<close> and one function per method of
  \<^verbatim>\<open>BrokerConnection\<close> that the monitor and the executor call, each returning the answer
  and the broker's next state.
\<close>

record 'b gateway =
  gw_is_connected :: "'b \<Rightarrow> bool \<times> 'b"
  gw_get_price :: "'b \<Rightarrow> symbol \<Rightarrow> quote option \<times> 'b"
  gw_get_positions :: "'b \<Rightarrow> position list \<times> 'b"
  gw_place_market_order :: "'b \<Rightarrow> order_request \<Rightarrow> int option \<times> 'b"
  gw_close_position :: "'b \<Rightarrow> int \<Rightarrow> bool \<times> 'b"

text \<open>
  The fields of \<^verbatim>\<open>TradeExecutor\<close> (\<open>trade_instructions\<close>, \<open>active_trades\<close>,
  \<open>max_retries\<close>, \<open>retry_delay\<close>), of \<^verbatim>\<open>PriceMonitor\<close> (\<open>symbols_to_monitor\<close>,
  \<open>price_data\<close>, \<open>update_interval\<close>), the broker, the wall clock read by \<^verbatim>\<open>time.time()\<close>
  and \<^verbatim>\<open>datetime.now()\<close>, and the trace of events so far.

  \<open>symbols_to_monitor\<close> is a Python set; it is a duplicate-free list here and loops over
  it run in list order (Python leaves the order open).
\<close>

record 'b system =
  trade_instructions :: "TradeInstruction list"
  active_trades :: "ActiveTrade list"
  next_id :: nat
  max_retries :: int
  retry_delay :: real
  symbols_to_monitor :: "symbol list"
  price_data :: "symbol \<rightharpoonup> quote"
  update_interval :: real
  broker :: 'b
  clock :: real
  trace :: "event list"

section \<open>Primitive steps\<close>

definition emit :: "event \<Rightarrow> 'b system \<Rightarrow> 'b system" where
  "emit e s = s\<lparr>trace := trace s @ [e]\<rparr>"

text \<open>\<^verbatim>\<open>time.sleep(d)\<close>: at least \<open>d\<close> seconds pass.\<close>

definition sleep :: "real \<Rightarrow> 'b system \<Rightarrow> 'b system" where
  "sleep d s = s\<lparr>clock := clock s + d, trace := trace s @ [Sleep d]\<rparr>"

definition broker_is_connected :: "'b gateway \<Rightarrow> 'b system \<Rightarrow> bool \<times> 'b system" where
  "broker_is_connected gw s =
     (case gw_is_connected gw (broker s) of
        (r, b) \<Rightarrow> (r, s\<lparr>broker := b, trace := trace s @ [IsConnected]\<rparr>))"

definition broker_get_price ::
  "'b gateway \<Rightarrow> symbol \<Rightarrow> 'b system \<Rightarrow> quote option \<times> 'b system" where
  "broker_get_price gw symbol s =
     (case gw_get_price gw (broker s) symbol of
        (r, b) \<Rightarrow> (r, s\<lparr>broker := b, trace := trace s @ [GetPrice symbol]\<rparr>))"

definition broker_get_positions :: "'b gateway \<Rightarrow> 'b system \<Rightarrow> position list \<times> 'b system" where
  "broker_get_positions gw s =
     (case gw_get_positions gw (broker s) of
        (r, b) \<Rightarrow> (r, s\<lparr>broker := b, trace := trace s @ [GetPositions]\<rparr>))"

definition broker_place_market_order ::
  "'b gateway \<Rightarrow> order_request \<Rightarrow> 'b system \<Rightarrow> int option \<times> 'b system" where
  "broker_place_market_order gw req s =
     (case gw_place_market_order gw (broker s) req of
        (r, b) \<Rightarrow> (r, s\<lparr>broker := b, trace := trace s @ [PlaceMarketOrder req]\<rparr>))"

definition broker_close_position :: "'b gateway \<Rightarrow> int \<Rightarrow> 'b system \<Rightarrow> bool \<times> 'b system" where
  "broker_close_position gw ticket s =
     (case gw_close_position gw (broker s) ticket of
        (r, b) \<Rightarrow> (r, s\<lparr>broker := b, trace := trace s @ [ClosePosition ticket]\<rparr>))"

text \<open>
  \<^verbatim>\<open>str.lower()\<close> on the ASCII letters. The code only compares the result with
  \<^verbatim>\<open>"buy"\<close> and \<^verbatim>\<open>"sell"\<close>, and no character outside ASCII lowers to one of their letters.
\<close>

definition lower_char :: "char \<Rightarrow> char" where
  "lower_char c =
     (let n = (of_char c :: nat)
      in if 65 \<le> n \<and> n \<le> 90 then char_of (n + 32) else c)"

definition lower :: "string \<Rightarrow> string" where
  "lower = map lower_char"

section \<open>PriceMonitor\<close>

definition add_symbol :: "'b gateway \<Rightarrow> symbol \<Rightarrow> 'b system \<Rightarrow> bool \<times> 'b system" where
  "add_symbol gw symbol s =
     (case broker_is_connected gw s of
        (c, s1) \<Rightarrow>
          if \<not> c then (False, s1)
          else (case broker_get_price gw symbol s1 of
                  (None, s2) \<Rightarrow> (False, s2)
                | (Some price, s2) \<Rightarrow>
                    (True, s2\<lparr>symbols_to_monitor := List.insert symbol (symbols_to_monitor s2),
                              price_data := (price_data s2)(symbol \<mapsto> price)\<rparr>)))"

definition remove_symbol :: "symbol \<Rightarrow> 'b system \<Rightarrow> bool \<times> 'b system" where
  "remove_symbol symbol s =
     (if symbol \<in> set (symbols_to_monitor s)
      then (True, s\<lparr>symbols_to_monitor := removeAll symbol (symbols_to_monitor s),
                    price_data := (price_data s)(symbol := None)\<rparr>)
      else (False, s))"

text \<open>
  \<^verbatim>\<open>PriceMonitor.get_price\<close>: the connectivity guard, then the cache (an entry without
  \<^verbatim>\<open>time\<close>, or one younger than 5 seconds), then the broker.
\<close>

definition fetch_price :: "'b gateway \<Rightarrow> symbol \<Rightarrow> 'b system \<Rightarrow> quote option \<times> 'b system" where
  "fetch_price gw symbol s =
     (case broker_get_price gw symbol s of
        (None, s1) \<Rightarrow> (None, s1)
      | (Some price, s1) \<Rightarrow> (Some price, s1\<lparr>price_data := (price_data s1)(symbol \<mapsto> price)\<rparr>))"

definition get_price :: "'b gateway \<Rightarrow> symbol \<Rightarrow> 'b system \<Rightarrow> quote option \<times> 'b system" where
  "get_price gw symbol s =
     (case broker_is_connected gw s of
        (c, s1) \<Rightarrow>
          if \<not> c then (None, s1)
          else (case price_data s1 symbol of
                  None \<Rightarrow> fetch_price gw symbol s1
                | Some cached \<Rightarrow>
                    (case qtime cached of
                       None \<Rightarrow> (Some cached, s1)
                     | Some t \<Rightarrow>
                         if clock s1 - t < 5 then (Some cached, s1)
                         else fetch_price gw symbol s1)))"

text \<open>
  The instruction dict read by \<^verbatim>\<open>check_entry_condition\<close>: \<^verbatim>\<open>entry_price\<close> by index,
  \<^verbatim>\<open>direction\<close> with \<^verbatim>\<open>dict.get\<close> and the default \<^verbatim>\<open>"buy"\<close>.
\<close>

record entry_instruction =
  ei_entry_price :: real
  ei_direction :: "string option"

definition check_entry_condition ::
  "'b gateway \<Rightarrow> symbol \<Rightarrow> entry_instruction \<Rightarrow> 'b system \<Rightarrow> bool \<times> 'b system" where
  "check_entry_condition gw symbol instruction s =
     (case get_price gw symbol s of
        (None, s1) \<Rightarrow> (False, s1)
      | (Some price, s1) \<Rightarrow>
          (let entry_price = ei_entry_price instruction;
               direction = lower (case ei_direction instruction of None \<Rightarrow> ''buy'' | Some d \<Rightarrow> d)
           in if direction = ''buy'' \<and> ask price \<le> entry_price then (True, s1)
              else if direction = ''sell'' \<and> bid price \<ge> entry_price then (True, s1)
              else (False, s1)))"

definition position_type :: "position \<Rightarrow> string" where
  "position_type pos = lower (case pos_type pos of None \<Rightarrow> [] | Some t \<Rightarrow> t)"

definition check_exit_condition ::
  "'b gateway \<Rightarrow> symbol \<Rightarrow> position \<Rightarrow> 'b system \<Rightarrow> bool \<times> 'b system" where
  "check_exit_condition gw symbol pos s =
     (case get_price gw symbol s of
        (None, s1) \<Rightarrow> (False, s1)
      | (Some price, s1) \<Rightarrow>
          (case pos_take_profit pos of
             None \<Rightarrow> (False, s1)
           | Some take_profit \<Rightarrow>
               if position_type pos = ''buy'' \<and> bid price \<ge> take_profit then (True, s1)
               else if position_type pos = ''sell'' \<and> ask price \<le> take_profit then (True, s1)
               else (False, s1)))"

definition check_sl_condition ::
  "'b gateway \<Rightarrow> symbol \<Rightarrow> position \<Rightarrow> 'b system \<Rightarrow> bool \<times> 'b system" where
  "check_sl_condition gw symbol pos s =
     (case get_price gw symbol s of
        (None, s1) \<Rightarrow> (False, s1)
      | (Some price, s1) \<Rightarrow>
          (case pos_stop_loss pos of
             None \<Rightarrow> (False, s1)
           | Some stop_loss \<Rightarrow>
               if position_type pos = ''buy'' \<and> bid price \<le> stop_loss then (True, s1)
               else if position_type pos = ''sell'' \<and> ask price \<ge> stop_loss then (True, s1)
               else (False, s1)))"

section \<open>TradeExecutor\<close>

text \<open>
  The instruction dict handed to \<^verbatim>\<open>add_trade_instruction\<close> is a \<^verbatim>\<open>Dict[str, Any]\<close>. The
  four numeric fields go through \<^verbatim>\<open>float()\<close> and \<^verbatim>\<open>direction\<close> through \<^verbatim>\<open>.lower()\<close>, so
  their values are arbitrary Python values; \<^verbatim>\<open>symbol\<close> and \<^verbatim>\<open>comment\<close> are only passed
  on and are typed as documented. \<open>None\<close> in a field means that the key is absent.
\<close>

datatype pyval = PyNone | PyBool bool | PyInt int | PyFloat real | PyStr string

datatype py_error = AttributeError | OverflowError

record raw_instruction =
  r_symbol :: "symbol option"
  r_entry_price :: "pyval option"
  r_exit_price :: "pyval option"
  r_stop_loss :: "pyval option"
  r_lot_size :: "pyval option"
  r_direction :: "pyval option"
  r_comment :: "string option"

text \<open>
  \<^verbatim>\<open>float(i)\<close> for an \<^verbatim>\<open>int\<close>: the nearest binary64 value, ties to the even mantissa.
  An integer of more than 53 bits keeps its 53 leading bits, rounded by the bits below
  them (\<open>round_half_even\<close>, with \<open>e\<close> the number of bits dropped); when the rounded value
  reaches \<open>2 ^ 1024\<close>, Python raises \<^verbatim>\<open>OverflowError\<close>, which is \<open>None\<close> here.
\<close>

fun bit_length :: "nat \<Rightarrow> nat" where
  "bit_length n = (if n = 0 then 0 else Suc (bit_length (n div 2)))"

declare bit_length.simps [simp del]

definition round_half_even :: "nat \<Rightarrow> nat \<Rightarrow> nat" where
  "round_half_even n e =
     (let q = n div 2 ^ e; r = n mod 2 ^ e
      in (if 2 * r > 2 ^ e \<or> (2 * r = 2 ^ e \<and> odd q) then q + 1 else q) * 2 ^ e)"

definition int_to_float :: "int \<Rightarrow> real option" where
  "int_to_float i =
     (let m = round_half_even (nat \<bar>i\<bar>) (bit_length (nat \<bar>i\<bar>) - 53)
      in if m \<ge> 2 ^ 1024 then None
         else Some (if i < 0 then - real m else real m))"

text \<open>
  \<^verbatim>\<open>float(v)\<close>. The result is \<open>Inr None\<close> for the \<^verbatim>\<open>ValueError\<close> and \<^verbatim>\<open>TypeError\<close> that
  the caller catches, \<open>Inl OverflowError\<close> for the exception it does not catch, and the
  float otherwise. How Python reads a string as a float is the parameter
  \<open>str_to_float\<close>. Floats are the finite ones: NaN and the infinities are outside the
  model.
\<close>

fun py_float :: "(string \<Rightarrow> real option) \<Rightarrow> pyval \<Rightarrow> py_error + real option" where
  "py_float str_to_float PyNone = Inr None"
| "py_float str_to_float (PyBool b) = Inr (Some (if b then 1 else 0))"
| "py_float str_to_float (PyInt i) =
     (case int_to_float i of None \<Rightarrow> Inl OverflowError | Some r \<Rightarrow> Inr (Some r))"
| "py_float str_to_float (PyFloat r) = Inr (Some r)"
| "py_float str_to_float (PyStr str) = Inr (str_to_float str)"

text \<open>
  The validation part of \<^verbatim>\<open>add_trade_instruction\<close>: the loop over the required fields,
  the loop over the numeric fields, the default direction, the direction check. The
  result is \<open>Inr None\<close> where the method returns \<^verbatim>\<open>False\<close>, \<open>Inl\<close> where it raises, and
  otherwise the instruction to store (its id still to be assigned). The method also
  writes the floats back into the caller's dict, which is not part of the state.
\<close>

definition required_fields_present :: "raw_instruction \<Rightarrow> bool" where
  "required_fields_present instruction \<longleftrightarrow>
     r_symbol instruction \<noteq> None \<and> r_entry_price instruction \<noteq> None \<and>
     r_exit_price instruction \<noteq> None \<and> r_stop_loss instruction \<noteq> None \<and>
     r_lot_size instruction \<noteq> None"

definition numeric_field ::
  "(string \<Rightarrow> real option) \<Rightarrow> pyval option \<Rightarrow> py_error + real option" where
  "numeric_field str_to_float field = py_float str_to_float (the field)"

text \<open>
  The loop over \<^verbatim>\<open>numeric_fields\<close>: the fields are converted in the order of the list, and
  the first one that fails ends the method, by \<^verbatim>\<open>return False\<close> or by the exception.
\<close>

definition coerce_numeric_fields ::
  "(string \<Rightarrow> real option) \<Rightarrow> raw_instruction
     \<Rightarrow> py_error + (real \<times> real \<times> real \<times> real) option" where
  "coerce_numeric_fields str_to_float instruction =
     (case numeric_field str_to_float (r_entry_price instruction) of
        Inl err \<Rightarrow> Inl err
      | Inr None \<Rightarrow> Inr None
      | Inr (Some entry_price) \<Rightarrow>
          (case numeric_field str_to_float (r_exit_price instruction) of
             Inl err \<Rightarrow> Inl err
           | Inr None \<Rightarrow> Inr None
           | Inr (Some exit_price) \<Rightarrow>
               (case numeric_field str_to_float (r_stop_loss instruction) of
                  Inl err \<Rightarrow> Inl err
                | Inr None \<Rightarrow> Inr None
                | Inr (Some stop_loss) \<Rightarrow>
                    (case numeric_field str_to_float (r_lot_size instruction) of
                       Inl err \<Rightarrow> Inl err
                     | Inr None \<Rightarrow> Inr None
                     | Inr (Some lot_size) \<Rightarrow>
                         Inr (Some (entry_price, exit_price, stop_loss, lot_size))))))"

definition direction_value :: "raw_instruction \<Rightarrow> real \<Rightarrow> real \<Rightarrow> pyval" where
  "direction_value instruction entry_price exit_price =
     (case r_direction instruction of
        None \<Rightarrow> PyStr (if exit_price > entry_price then ''buy'' else ''sell'')
      | Some d \<Rightarrow> d)"

definition validate_instruction ::
  "(string \<Rightarrow> real option) \<Rightarrow> raw_instruction \<Rightarrow> py_error + TradeInstruction option" where
  "validate_instruction str_to_float instruction =
     (if \<not> required_fields_present instruction then Inr None
      else
        (case coerce_numeric_fields str_to_float instruction of
           Inl err \<Rightarrow> Inl err
         | Inr None \<Rightarrow> Inr None
         | Inr (Some (entry_price, exit_price, stop_loss, lot_size)) \<Rightarrow>
             (case direction_value instruction entry_price exit_price of
                PyStr d \<Rightarrow>
                  (if lower d \<notin> set [''buy'', ''sell''] then Inr None
                   else Inr (Some \<lparr>ti_id = 0, ti_symbol = the (r_symbol instruction),
                                   ti_entry_price = entry_price, ti_exit_price = exit_price,
                                   ti_stop_loss = stop_loss, ti_lot_size = lot_size,
                                   ti_direction = lower d,
                                   ti_comment = (case r_comment instruction of
                                                   None \<Rightarrow> ''Hunter Bot''
                                                 | Some c \<Rightarrow> c)\<rparr>))
              | _ \<Rightarrow> Inl AttributeError)))"

definition add_trade_instruction ::
  "(string \<Rightarrow> real option) \<Rightarrow> 'b gateway \<Rightarrow> raw_instruction \<Rightarrow> 'b system
     \<Rightarrow> (py_error + bool) \<times> 'b system" where
  "add_trade_instruction str_to_float gw instruction s =
     (case validate_instruction str_to_float instruction of
        Inl err \<Rightarrow> (Inl err, s)
      | Inr None \<Rightarrow> (Inr False, s)
      | Inr (Some ti) \<Rightarrow>
          (let trade_instruction = ti\<lparr>ti_id := next_id s\<rparr>;
               s1 = emit LockAcquire s;
               s2 = s1\<lparr>trade_instructions := trade_instructions s1 @ [trade_instruction],
                       next_id := Suc (next_id s1)\<rparr>;
               s3 = emit LockRelease s2
           in (Inr True, snd (add_symbol gw (ti_symbol trade_instruction) s3))))"

definition get_trade_instructions :: "'b system \<Rightarrow> TradeInstruction list \<times> 'b system" where
  "get_trade_instructions s =
     (let s1 = emit LockAcquire s in (trade_instructions s1, emit LockRelease s1))"

definition get_active_trades :: "'b system \<Rightarrow> ActiveTrade list \<times> 'b system" where
  "get_active_trades s =
     (let s1 = emit LockAcquire s in (active_trades s1, emit LockRelease s1))"

text \<open>
  \<^verbatim>\<open>_update_monitored_symbols\<close>: the symbols of all instructions and active trades are
  collected under the lock; then the missing ones are added to the monitor and the
  others removed from it. Both loops run over set differences computed beforehand.
\<close>

definition symbols_needed :: "'b system \<Rightarrow> symbol list" where
  "symbols_needed s =
     remdups (map ti_symbol (trade_instructions s) @ map at_symbol (active_trades s))"

definition update_monitored_symbols :: "'b gateway \<Rightarrow> 'b system \<Rightarrow> 'b system" where
  "update_monitored_symbols gw s =
     (let s1 = emit LockAcquire s;
          wanted = symbols_needed s1;
          s2 = emit LockRelease s1;
          current_symbols = symbols_to_monitor s2;
          s3 = fold (\<lambda>symbol st. snd (add_symbol gw symbol st))
                 (filter (\<lambda>symbol. symbol \<notin> set current_symbols) wanted) s2
      in fold (\<lambda>symbol st. snd (remove_symbol symbol st))
           (filter (\<lambda>symbol. symbol \<notin> set wanted) current_symbols) s3)"

text \<open>
  \<^verbatim>\<open>remove_trade_instruction\<close>: the first instruction with the id is popped, all under
  the lock, and its symbol leaves the monitor when no other instruction and no active
  trade uses it.
\<close>

definition remove_trade_instruction :: "nat \<Rightarrow> 'b system \<Rightarrow> bool \<times> 'b system" where
  "remove_trade_instruction instruction_id s =
     (let s1 = emit LockAcquire s
      in case find (\<lambda>i. ti_id i = instruction_id) (trade_instructions s1) of
           None \<Rightarrow> (False, emit LockRelease s1)
         | Some instruction \<Rightarrow>
             (let symbol = ti_symbol instruction;
                  remove_symbol_flag =
                    (\<not> (\<exists>other \<in> set (trade_instructions s1).
                           ti_id other \<noteq> instruction_id \<and> ti_symbol other = symbol)
                     \<and> \<not> (\<exists>trade \<in> set (active_trades s1). at_symbol trade = symbol));
                  s2 = s1\<lparr>trade_instructions := remove1 instruction (trade_instructions s1)\<rparr>;
                  s3 = (if remove_symbol_flag then snd (remove_symbol symbol s2) else s2)
              in (True, emit LockRelease s3)))"

definition cancel_all_instructions :: "'b gateway \<Rightarrow> 'b system \<Rightarrow> nat \<times> 'b system" where
  "cancel_all_instructions gw s =
     (let s1 = emit LockAcquire s;
          count = length (trade_instructions s1);
          s2 = s1\<lparr>trade_instructions := []\<rparr>;
          s3 = update_monitored_symbols gw s2
      in (count, emit LockRelease s3))"

text \<open>
  \<^verbatim>\<open>_close_trade\<close>. The trade is looked up under the lock. The retry loop
  \<^verbatim>\<open>for attempt in range(1, self.max_retries + 1)\<close> is \<open>close_attempts\<close>, counting down the
  attempts that are left: one \<^verbatim>\<open>close_position\<close> call; on success the trade is removed
  and the monitored symbols are updated under the lock; on failure
  \<^verbatim>\<open>time.sleep(self.retry_delay)\<close> and the next attempt. \<^verbatim>\<open>list.remove\<close> finds the trade:
  it was looked up in the same list, which no step in between changes.
\<close>

fun close_attempts ::
  "'b gateway \<Rightarrow> int \<Rightarrow> ActiveTrade \<Rightarrow> nat \<Rightarrow> 'b system \<Rightarrow> bool \<times> 'b system" where
  "close_attempts gw ticket trade_to_remove 0 s = (False, s)"
| "close_attempts gw ticket trade_to_remove (Suc n) s =
     (case broker_close_position gw ticket s of
        (ok, s1) \<Rightarrow>
          if ok then
            (let s2 = emit LockAcquire s1;
                 s3 = s2\<lparr>active_trades := remove1 trade_to_remove (active_trades s2)\<rparr>;
                 s4 = update_monitored_symbols gw s3
             in (True, emit LockRelease s4))
          else close_attempts gw ticket trade_to_remove n (sleep (retry_delay s1) s1))"

definition internal_close_trade :: "'b gateway \<Rightarrow> int \<Rightarrow> 'b system \<Rightarrow> bool \<times> 'b system" where
  "internal_close_trade gw ticket s =
     (let s1 = emit LockAcquire s;
          found = find (\<lambda>trade. at_ticket trade = ticket) (active_trades s1);
          s2 = emit LockRelease s1
      in case found of
           None \<Rightarrow> (False, s2)
         | Some trade_to_remove \<Rightarrow>
             close_attempts gw ticket trade_to_remove (nat (max_retries s2)) s2)"

definition close_trade :: "'b gateway \<Rightarrow> int \<Rightarrow> 'b system \<Rightarrow> bool \<times> 'b system" where
  "close_trade gw trade_id s = internal_close_trade gw trade_id s"

text \<open>
  \<^verbatim>\<open>close_all_trades\<close>: the \<^verbatim>\<open>with self.trade_lock\<close> block encloses the whole loop over
  the snapshot \<^verbatim>\<open>list(self.active_trades)\<close>; the lock is reentrant, so \<^verbatim>\<open>_close_trade\<close>
  takes it again inside.
\<close>

definition close_all_trades :: "'b gateway \<Rightarrow> 'b system \<Rightarrow> nat \<times> 'b system" where
  "close_all_trades gw s =
     (let s1 = emit LockAcquire s
      in case fold (\<lambda>trade (closed_count, st).
                      case internal_close_trade gw (at_ticket trade) st of
                        (ok, st') \<Rightarrow> (if ok then closed_count + 1 else closed_count, st'))
                (active_trades s1) (0, s1) of
           (closed_count, s2) \<Rightarrow> (closed_count, emit LockRelease s2))"

text \<open>
  \<^verbatim>\<open>_execute_trade\<close>. \<open>place_attempts\<close> is its retry loop. \<^verbatim>\<open>if ticket:\<close> is Python
  truthiness: \<^verbatim>\<open>None\<close> and the ticket \<^verbatim>\<open>0\<close> both count as a failed attempt. The instruction
  comes from the snapshot of the backlog taken by the entry callback.
\<close>

definition order_type_of :: "TradeInstruction \<Rightarrow> OrderType" where
  "order_type_of instruction = (if ti_direction instruction = ''buy'' then BUY else SELL)"

definition order_of :: "TradeInstruction \<Rightarrow> order_request" where
  "order_of instruction =
     \<lparr>or_symbol = ti_symbol instruction, or_order_type = order_type_of instruction,
      or_lot_size = ti_lot_size instruction, or_stop_loss = ti_stop_loss instruction,
      or_take_profit = ti_exit_price instruction, or_comment = ti_comment instruction\<rparr>"

fun place_attempts ::
  "'b gateway \<Rightarrow> TradeInstruction \<Rightarrow> quote \<Rightarrow> nat \<Rightarrow> 'b system \<Rightarrow> bool \<times> 'b system" where
  "place_attempts gw instruction price 0 s = (False, s)"
| "place_attempts gw instruction price (Suc n) s =
     (case broker_place_market_order gw (order_of instruction) s of
        (r, s1) \<Rightarrow>
          if r \<noteq> None \<and> r \<noteq> Some 0 then
            (let trade = \<lparr>at_ticket = the r, at_symbol = ti_symbol instruction,
                          at_entry_price = (if order_type_of instruction = BUY
                                            then ask price else bid price),
                          at_exit_price = ti_exit_price instruction,
                          at_stop_loss = ti_stop_loss instruction,
                          at_lot_size = ti_lot_size instruction,
                          at_direction = ti_direction instruction,
                          at_comment = ti_comment instruction,
                          at_entry_time = clock s1\<rparr>;
                 s2 = emit LockAcquire s1;
                 s3 = s2\<lparr>active_trades := active_trades s2 @ [trade],
                         trade_instructions := remove1 instruction (trade_instructions s2)\<rparr>
             in (True, emit LockRelease s3))
          else place_attempts gw instruction price n (sleep (retry_delay s1) s1))"

definition execute_trade ::
  "'b gateway \<Rightarrow> TradeInstruction \<Rightarrow> quote \<Rightarrow> 'b system \<Rightarrow> bool \<times> 'b system" where
  "execute_trade gw instruction price s =
     place_attempts gw instruction price (nat (max_retries s)) s"

text \<open>
  The callbacks the executor registers with the monitor. \<^verbatim>\<open>_on_entry_condition\<close>
  collects the matching instructions under the lock and executes them after it.
\<close>

definition entry_matches :: "symbol \<Rightarrow> quote \<Rightarrow> TradeInstruction \<Rightarrow> bool" where
  "entry_matches symbol price instruction \<longleftrightarrow>
     ti_symbol instruction = symbol \<and>
     (ti_direction instruction = ''buy'' \<and> ask price \<le> ti_entry_price instruction
      \<or> ti_direction instruction = ''sell'' \<and> bid price \<ge> ti_entry_price instruction)"

definition on_entry_condition :: "'b gateway \<Rightarrow> symbol \<Rightarrow> quote \<Rightarrow> 'b system \<Rightarrow> 'b system" where
  "on_entry_condition gw symbol price s =
     (let s1 = emit LockAcquire s;
          instructions_to_execute = filter (entry_matches symbol price) (trade_instructions s1);
          s2 = emit LockRelease s1
      in fold (\<lambda>instruction st. snd (execute_trade gw instruction price st))
           instructions_to_execute s2)"

definition on_exit_condition ::
  "'b gateway \<Rightarrow> symbol \<Rightarrow> quote \<Rightarrow> position \<Rightarrow> 'b system \<Rightarrow> 'b system" where
  "on_exit_condition gw symbol price pos s = snd (internal_close_trade gw (pos_ticket pos) s)"

definition on_sl_condition ::
  "'b gateway \<Rightarrow> symbol \<Rightarrow> quote \<Rightarrow> position \<Rightarrow> 'b system \<Rightarrow> 'b system" where
  "on_sl_condition gw symbol price pos s = snd (internal_close_trade gw (pos_ticket pos) s)"

section \<open>The monitoring loop\<close>

text \<open>
  The three callback lists of the monitor. A callback is a state transformer: the loop
  catches and logs whatever a callback raises, so a raising callback is one that stops
  early with the state it has reached.
\<close>

record 'b callbacks =
  entry_callbacks :: "(symbol \<Rightarrow> quote \<Rightarrow> 'b system \<Rightarrow> 'b system) list"
  exit_callbacks :: "(symbol \<Rightarrow> quote \<Rightarrow> position \<Rightarrow> 'b system \<Rightarrow> 'b system) list"
  sl_callbacks :: "(symbol \<Rightarrow> quote \<Rightarrow> position \<Rightarrow> 'b system \<Rightarrow> 'b system) list"

text \<open>The registrations made by \<^verbatim>\<open>TradeExecutor.__init__\<close>.\<close>

definition executor_callbacks :: "'b gateway \<Rightarrow> 'b callbacks" where
  "executor_callbacks gw =
     \<lparr>entry_callbacks = [on_entry_condition gw],
      exit_callbacks = [on_exit_condition gw],
      sl_callbacks = [on_sl_condition gw]\<rparr>"

text \<open>Step (b) of a cycle: the symbols of the open positions that the monitor lacks are added.\<close>

definition add_position_symbols :: "'b gateway \<Rightarrow> position list \<Rightarrow> 'b system \<Rightarrow> 'b system" where
  "add_position_symbols gw positions s =
     fold (\<lambda>symbol st. if symbol \<notin> set (symbols_to_monitor st)
                        then snd (add_symbol gw symbol st) else st)
       (remdups (map pos_symbol positions)) s"

text \<open>The take-profit and stop-loss checks of one position for the symbol at hand.\<close>

definition check_position ::
  "'b gateway \<Rightarrow> 'b callbacks \<Rightarrow> symbol \<Rightarrow> quote \<Rightarrow> position \<Rightarrow> 'b system \<Rightarrow> 'b system" where
  "check_position gw cbs symbol price pos s =
     (if pos_symbol pos \<noteq> symbol then s
      else
        (case check_exit_condition gw symbol pos s of
           (tp_hit, s1) \<Rightarrow>
             (let s2 = (if tp_hit
                        then fold (\<lambda>callback. callback symbol price pos) (exit_callbacks cbs) s1
                        else s1)
              in case check_sl_condition gw symbol pos s2 of
                   (sl_hit, s3) \<Rightarrow>
                     if sl_hit
                     then fold (\<lambda>callback. callback symbol price pos) (sl_callbacks cbs) s3
                     else s3)))"

text \<open>
  The body of the loop over the monitored symbols: the quote is fetched; without a quote
  the symbol is skipped (\<^verbatim>\<open>continue\<close>); with one, the cache is updated, every entry
  callback runs, and every position of the symbol is checked.
\<close>

definition monitor_symbol ::
  "'b gateway \<Rightarrow> 'b callbacks \<Rightarrow> position list \<Rightarrow> symbol \<Rightarrow> 'b system \<Rightarrow> 'b system" where
  "monitor_symbol gw cbs positions symbol s =
     (case broker_get_price gw symbol s of
        (None, s1) \<Rightarrow> s1
      | (Some price, s1) \<Rightarrow>
          (let s2 = s1\<lparr>price_data := (price_data s1)(symbol \<mapsto> price)\<rparr>;
               s3 = fold (\<lambda>callback. callback symbol price) (entry_callbacks cbs) s2
           in fold (check_position gw cbs symbol price) positions s3))"

definition monitor_symbols ::
  "'b gateway \<Rightarrow> 'b callbacks \<Rightarrow> position list \<Rightarrow> symbol list \<Rightarrow> 'b system \<Rightarrow> 'b system" where
  "monitor_symbols gw cbs positions symbols s = fold (monitor_symbol gw cbs positions) symbols s"

text \<open>
  One pass through the \<^verbatim>\<open>try\<close> block of \<^verbatim>\<open>_monitoring_loop\<close>; the second loop runs over
  the snapshot \<^verbatim>\<open>list(self.symbols_to_monitor)\<close> taken after the first.
\<close>

definition monitoring_cycle :: "'b gateway \<Rightarrow> 'b callbacks \<Rightarrow> 'b system \<Rightarrow> 'b system" where
  "monitoring_cycle gw cbs s =
     (case broker_get_positions gw s of
        (positions, s1) \<Rightarrow>
          (let s2 = add_position_symbols gw positions s1
           in monitor_symbols gw cbs positions (symbols_to_monitor s2) s2))"

text \<open>
  \<^verbatim>\<open>_monitoring_loop\<close>. The stop event is set by another thread, so what the loop head
  reads from it is an input: the list \<open>stops\<close> holds the value of
  \<^verbatim>\<open>self._stop_monitoring.is_set()\<close> at the head of each cycle to come. The loop can run
  forever; a run that is still going when the list ends is \<open>None\<close>.
\<close>

datatype loop_exit = Stopped | ConnectionLost

fun monitoring_loop ::
  "'b gateway \<Rightarrow> 'b callbacks \<Rightarrow> bool list \<Rightarrow> 'b system \<Rightarrow> (loop_exit \<times> 'b system) option" where
  "monitoring_loop gw cbs [] s = None"
| "monitoring_loop gw cbs (stop_set # stops) s =
     (if stop_set then Some (Stopped, s)
      else
        (case broker_is_connected gw s of
           (is_up, s1) \<Rightarrow>
             if \<not> is_up then Some (ConnectionLost, s1)
             else
               (let s2 = monitoring_cycle gw cbs s1;
                    s3 = sleep (update_interval s2) s2
                in monitoring_loop gw cbs stops s3)))"

section \<open>The lock discipline on a trace\<close>

text \<open>
  \<open>lock_discipline depth evs\<close> reads a trace from a state in which the (reentrant)
  \<^verbatim>\<open>trade_lock\<close> is held \<open>depth\<close> times. It fails (\<open>None\<close>) when an order is placed or a
  position is closed while the lock is held, and otherwise gives the depth at the end.
\<close>

fun lock_discipline :: "nat \<Rightarrow> event list \<Rightarrow> nat option" where
  "lock_discipline depth [] = Some depth"
| "lock_discipline depth (LockAcquire # evs) = lock_discipline (Suc depth) evs"
| "lock_discipline depth (LockRelease # evs) = lock_discipline (depth - 1) evs"
| "lock_discipline depth (PlaceMarketOrder req # evs) =
     (if depth = 0 then lock_discipline depth evs else None)"
| "lock_discipline depth (ClosePosition ticket # evs) =
     (if depth = 0 then lock_discipline depth evs else None)"
| "lock_discipline depth (ev # evs) = lock_discipline depth evs"

section \<open>A test double for the broker\<close>

text \<open>
  A broker whose answers are fixed by its state, for running the model on concrete
  inputs: a connection flag, a quote table, the open positions, whether closing a
  position succeeds, and the ticket the next order gets (\<open>None\<close>: orders are refused).
  As in \<^verbatim>\<open>BrokerConnection\<close>, every operation fails at once when not connected.
\<close>

record mock_broker =
  mb_connected :: bool
  mb_quotes :: "(symbol \<times> quote) list"
  mb_positions :: "position list"
  mb_close_ok :: bool
  mb_next_ticket :: "int option"

definition mock_gateway :: "mock_broker gateway" where
  "mock_gateway =
     \<lparr>gw_is_connected = (\<lambda>b. (mb_connected b, b)),
      gw_get_price = (\<lambda>b symbol. (if mb_connected b then map_of (mb_quotes b) symbol else None, b)),
      gw_get_positions = (\<lambda>b. (if mb_connected b then mb_positions b else [], b)),
      gw_place_market_order =
        (\<lambda>b req. if mb_connected b
                  then (mb_next_ticket b,
                        b\<lparr>mb_next_ticket := map_option (\<lambda>t. t + 1) (mb_next_ticket b)\<rparr>)
                  else (None, b)),
      gw_close_position =
        (\<lambda>b ticket. if mb_connected b \<and> mb_close_ok b
                     then (True, b\<lparr>mb_positions :=
                                      filter (\<lambda>p. pos_ticket p \<noteq> ticket) (mb_positions b)\<rparr>)
                     else (False, b))\<rparr>"

definition eurusd_quote :: quote where
  "eurusd_quote = \<lparr>bid = 10950 / 10000, ask = 10995 / 10000, qtime = Some 100\<rparr>"

definition mock_online :: mock_broker where
  "mock_online =
     \<lparr>mb_connected = True, mb_quotes = [(''EURUSD'', eurusd_quote)], mb_positions = [],
      mb_close_ok = True, mb_next_ticket = Some 1001\<rparr>"

text \<open>
  A freshly constructed executor and monitor on a given broker, with the default
  arguments of the constructors (three attempts, one second between them, one second
  between cycles).
\<close>

definition initial_system :: "'b \<Rightarrow> 'b system" where
  "initial_system b =
     \<lparr>trade_instructions = [], active_trades = [], next_id = 1, max_retries = 3,
      retry_delay = 1, symbols_to_monitor = [], price_data = Map.empty,
      update_interval = 1, broker = b, clock = 100, trace = []\<rparr>"

definition eurusd_trade :: ActiveTrade where
  "eurusd_trade =
     \<lparr>at_ticket = 1001, at_symbol = ''EURUSD'', at_entry_price = 10999 / 10000,
      at_exit_price = 11050 / 10000, at_stop_loss = 10950 / 10000, at_lot_size = 1,
      at_direction = ''buy'', at_comment = ''Hunter Bot'', at_entry_time = 90\<rparr>"

text \<open>The executor holding one active trade on a watched symbol.\<close>

definition one_trade_system :: "'b \<Rightarrow> 'b system" where
  "one_trade_system b =
     (initial_system b)\<lparr>active_trades := [eurusd_trade], symbols_to_monitor := [''EURUSD''],
                        price_data := [''EURUSD'' \<mapsto> eurusd_quote]\<rparr>"

definition mock_offline :: mock_broker where
  "mock_offline = mock_online\<lparr>mb_connected := False\<rparr>"

definition buy_position :: position where
  "buy_position =
     \<lparr>pos_ticket = 1001, pos_symbol = ''EURUSD'', pos_type = Some ''buy'',
      pos_take_profit = Some (11050 / 10000), pos_stop_loss = Some (10950 / 10000)\<rparr>"

definition sell_position :: position where
  "sell_position =
     \<lparr>pos_ticket = 1002, pos_symbol = ''EURUSD'', pos_type = Some ''sell'',
      pos_take_profit = Some (10900 / 10000), pos_stop_loss = Some (10995 / 10000)\<rparr>"

text \<open>A monitor whose cache holds an old entry without a \<^verbatim>\<open>time\<close> key.\<close>

definition stale_untimed_quote :: quote where
  "stale_untimed_quote = \<lparr>bid = 10950 / 10000, ask = 10995 / 10000, qtime = None\<rparr>"

definition untimed_cache_system :: "'b \<Rightarrow> 'b system" where
  "untimed_cache_system b =
     (initial_system b)\<lparr>symbols_to_monitor := [''EURUSD''],
                        price_data := [''EURUSD'' \<mapsto> stale_untimed_quote],
                        clock := 1000000\<rparr>"

text \<open>A string-to-float reader that accepts no string at all.\<close>

definition no_strings :: "string \<Rightarrow> real option" where
  "no_strings str = None"

text \<open>
  An instruction without \<^verbatim>\<open>direction\<close>, and the same instruction with
  \<^verbatim>\<open>"direction": None\<close>.
\<close>

definition eurusd_instruction :: raw_instruction where
  "eurusd_instruction =
     \<lparr>r_symbol = Some ''EURUSD'', r_entry_price = Some (PyFloat (11000 / 10000)),
      r_exit_price = Some (PyFloat (11050 / 10000)), r_stop_loss = Some (PyFloat (10950 / 10000)),
      r_lot_size = Some (PyInt 1), r_direction = None, r_comment = None\<rparr>"

definition null_direction_instruction :: raw_instruction where
  "null_direction_instruction = eurusd_instruction\<lparr>r_direction := Some PyNone\<rparr>"

text \<open>
  An instruction without \<^verbatim>\<open>direction\<close> whose prices are the integers \<open>2 ^ 53\<close> and
  \<open>2 ^ 53 + 1\<close>; \<^verbatim>\<open>float()\<close> rounds the second to the first.
\<close>

definition rounding_instruction :: raw_instruction where
  "rounding_instruction =
     eurusd_instruction\<lparr>r_entry_price := Some (PyInt 9007199254740992),
                         r_exit_price := Some (PyInt 9007199254740993)\<rparr>"

definition mock_close_fails :: mock_broker where
  "mock_close_fails = mock_online\<lparr>mb_close_ok := False\<rparr>"

definition mock_orders_refused :: mock_broker where
  "mock_orders_refused = mock_online\<lparr>mb_next_ticket := None\<rparr>"

text \<open>
  Event sequences in which no order is placed and no position is closed and which leave
  the lock as deep as they found it.
\<close>

definition calm :: "event list \<Rightarrow> bool" where
  "calm evs \<longleftrightarrow> (\<forall>d. lock_discipline d evs = Some d)"

text \<open>
  A monitor watching two symbols, one of which the test broker has no quote for.
\<close>

definition two_symbol_system :: "'b \<Rightarrow> 'b system" where
  "two_symbol_system b = (initial_system b)\<lparr>symbols_to_monitor := [''XAUUSD'', ''EURUSD'']\<rparr>"

text \<open>
  The bound that a poll cycle keeps on the monitored symbols: each is in the set \<open>B\<close>
  or is the symbol of a pending instruction or of an active trade.
\<close>

definition watch_bound :: "symbol set \<Rightarrow> 'b system \<Rightarrow> bool" where
  "watch_bound B s \<longleftrightarrow> set (symbols_to_monitor s) \<subseteq> B \<union> set (symbols_needed s)"





text \<open>The executor holding one pending instruction on a watched symbol.\<close>

definition eurusd_pending :: TradeInstruction where
  "eurusd_pending =
     \<lparr>ti_id = 1, ti_symbol = ''EURUSD'', ti_entry_price = 11000 / 10000,
      ti_exit_price = 11050 / 10000, ti_stop_loss = 10950 / 10000, ti_lot_size = 1,
      ti_direction = ''buy'', ti_comment = ''Hunter Bot''\<rparr>"

definition one_instruction_system :: "'b \<Rightarrow> 'b system" where
  "one_instruction_system b =
     (initial_system b)\<lparr>trade_instructions := [eurusd_pending], next_id := 2,
                        symbols_to_monitor := [''EURUSD''],
                        price_data := [''EURUSD'' \<mapsto> eurusd_quote]\<rparr>"

section \<open>Basic facts about the primitive steps\<close>

lemma add_symbol_trade_instructions [simp]:
  "trade_instructions (snd (add_symbol gw symbol s)) = trade_instructions s"
  by (simp add: add_symbol_def broker_is_connected_def broker_get_price_def
      case_prod_unfold split: option.splits)

lemma add_symbol_active_trades [simp]:
  "active_trades (snd (add_symbol gw symbol s)) = active_trades s"
  by (simp add: add_symbol_def broker_is_connected_def broker_get_price_def
      case_prod_unfold split: option.splits)

lemma add_symbol_symbols:
  "set (symbols_to_monitor (snd (add_symbol gw symbol s))) \<subseteq> insert symbol (set (symbols_to_monitor s))"
  "set (symbols_to_monitor s) \<subseteq> set (symbols_to_monitor (snd (add_symbol gw symbol s)))"
  by (auto simp: add_symbol_def broker_is_connected_def broker_get_price_def
      case_prod_unfold split: option.splits)

lemma remove_symbol_fields [simp]:
  "trade_instructions (snd (remove_symbol symbol s)) = trade_instructions s"
  "active_trades (snd (remove_symbol symbol s)) = active_trades s"
  "symbols_to_monitor (snd (remove_symbol symbol s)) = removeAll symbol (symbols_to_monitor s)"
  by (simp_all add: remove_symbol_def)

lemma fold_add_symbol_fields:
  "trade_instructions (fold (\<lambda>symbol st. snd (add_symbol gw symbol st)) xs s) = trade_instructions s"
  "active_trades (fold (\<lambda>symbol st. snd (add_symbol gw symbol st)) xs s) = active_trades s"
  "set (symbols_to_monitor (fold (\<lambda>symbol st. snd (add_symbol gw symbol st)) xs s))
     \<subseteq> set (symbols_to_monitor s) \<union> set xs"
proof (induction xs arbitrary: s)
  case Nil
  {
    case 1 show ?case by simp
  next
    case 2 show ?case by simp
  next
    case 3 show ?case by simp
  }
next
  case (Cons x xs)
  {
    case 1 show ?case by (simp add: Cons.IH(1))
  next
    case 2 show ?case by (simp add: Cons.IH(2))
  next
    case 3
    show ?case
      using Cons.IH(3) [of "snd (add_symbol gw x s)"] add_symbol_symbols(1) [of gw x s]
      by auto
  }
qed

lemma fold_remove_symbol_fields:
  "trade_instructions (fold (\<lambda>symbol st. snd (remove_symbol symbol st)) xs s) = trade_instructions s"
  "active_trades (fold (\<lambda>symbol st. snd (remove_symbol symbol st)) xs s) = active_trades s"
  "set (symbols_to_monitor (fold (\<lambda>symbol st. snd (remove_symbol symbol st)) xs s))
     = set (symbols_to_monitor s) - set xs"
  by (induction xs arbitrary: s) auto

lemma update_monitored_symbols_fields:
  "trade_instructions (update_monitored_symbols gw s) = trade_instructions s"
  "active_trades (update_monitored_symbols gw s) = active_trades s"
  by (simp_all add: update_monitored_symbols_def Let_def fold_remove_symbol_fields
      fold_add_symbol_fields emit_def)

lemma update_monitored_symbols_subset:
  "set (symbols_to_monitor (update_monitored_symbols gw s)) \<subseteq> set (symbols_needed s)"
proof -
  let ?s2 = "emit LockRelease (emit LockAcquire s)"
  let ?wanted = "symbols_needed (emit LockAcquire s)"
  let ?adds = "filter (\<lambda>symbol. symbol \<notin> set (symbols_to_monitor ?s2)) ?wanted"
  let ?s3 = "fold (\<lambda>symbol st. snd (add_symbol gw symbol st)) ?adds ?s2"
  have w: "?wanted = symbols_needed s"
    by (simp add: symbols_needed_def emit_def)
  have "set (symbols_to_monitor ?s3) \<subseteq> set (symbols_to_monitor ?s2) \<union> set ?adds"
    by (rule fold_add_symbol_fields(3))
  then have "set (symbols_to_monitor ?s3) - set (filter (\<lambda>symbol. symbol \<notin> set ?wanted)
                                                  (symbols_to_monitor ?s2)) \<subseteq> set ?wanted"
    by auto
  then show ?thesis
    by (simp add: update_monitored_symbols_def Let_def fold_remove_symbol_fields(3) w)
qed

section \<open>The trigger conditions\<close>

text \<open>
  Claim C8. Given the quote that \<^verbatim>\<open>get_price\<close> delivers, the three checks of the monitor
  are inclusive comparisons: entry holds for a buy instruction iff \<open>ask \<le> entry_price\<close>
  and for a sell instruction iff \<open>bid \<ge> entry_price\<close>; take-profit holds for a buy
  position iff \<open>bid \<ge> take_profit\<close> and for a sell position iff \<open>ask \<le> take_profit\<close>;
  stop-loss holds for a buy position iff \<open>bid \<le> stop_loss\<close> and for a sell position iff
  \<open>ask \<ge> stop_loss\<close>. The executor's own entry test (\<open>entry_matches\<close>) compares in the
  same way.
\<close>

theorem trigger_conditions_inclusive:
  assumes "get_price gw symbol s = (Some price, s1)"
    and "lower buy_dir = ''buy''" and "lower sell_dir = ''sell''"
    and "position_type buy_pos = ''buy''" and "position_type sell_pos = ''sell''"
  shows "(fst (check_entry_condition gw symbol
                 \<lparr>ei_entry_price = entry_price, ei_direction = Some buy_dir\<rparr> s)
            \<longleftrightarrow> ask price \<le> entry_price)
       \<and> (fst (check_entry_condition gw symbol
                 \<lparr>ei_entry_price = entry_price, ei_direction = Some sell_dir\<rparr> s)
            \<longleftrightarrow> bid price \<ge> entry_price)
       \<and> (fst (check_exit_condition gw symbol (buy_pos\<lparr>pos_take_profit := Some take_profit\<rparr>) s)
            \<longleftrightarrow> bid price \<ge> take_profit)
       \<and> (fst (check_exit_condition gw symbol (sell_pos\<lparr>pos_take_profit := Some take_profit\<rparr>) s)
            \<longleftrightarrow> ask price \<le> take_profit)
       \<and> (fst (check_sl_condition gw symbol (buy_pos\<lparr>pos_stop_loss := Some stop_loss\<rparr>) s)
            \<longleftrightarrow> bid price \<le> stop_loss)
       \<and> (fst (check_sl_condition gw symbol (sell_pos\<lparr>pos_stop_loss := Some stop_loss\<rparr>) s)
            \<longleftrightarrow> ask price \<ge> stop_loss)
       \<and> (entry_matches symbol price (instruction\<lparr>ti_symbol := symbol, ti_direction := ''buy''\<rparr>)
            \<longleftrightarrow> ask price \<le> ti_entry_price instruction)
       \<and> (entry_matches symbol price (instruction\<lparr>ti_symbol := symbol, ti_direction := ''sell''\<rparr>)
            \<longleftrightarrow> bid price \<ge> ti_entry_price instruction)"
  using assms
  by (simp add: check_entry_condition_def check_exit_condition_def check_sl_condition_def
      position_type_def entry_matches_def)

theorem trigger_conditions_inclusive_witness:
  "fst (check_entry_condition mock_gateway ''EURUSD''
          \<lparr>ei_entry_price = 11000 / 10000, ei_direction = Some ''buy''\<rparr>
          (initial_system mock_online))
   \<and> \<not> fst (check_entry_condition mock_gateway ''EURUSD''
          \<lparr>ei_entry_price = 11000 / 10000, ei_direction = Some ''sell''\<rparr>
          (initial_system mock_online))
   \<and> \<not> fst (check_exit_condition mock_gateway ''EURUSD''
          (buy_position\<lparr>pos_take_profit := Some (11050 / 10000)\<rparr>) (initial_system mock_online))
   \<and> fst (check_exit_condition mock_gateway ''EURUSD''
          (sell_position\<lparr>pos_take_profit := Some (11050 / 10000)\<rparr>) (initial_system mock_online))
   \<and> fst (check_sl_condition mock_gateway ''EURUSD''
          (buy_position\<lparr>pos_stop_loss := Some (10950 / 10000)\<rparr>) (initial_system mock_online))
   \<and> fst (check_sl_condition mock_gateway ''EURUSD''
          (sell_position\<lparr>pos_stop_loss := Some (10950 / 10000)\<rparr>) (initial_system mock_online))"
proof -
  have q: "get_price mock_gateway ''EURUSD'' (initial_system mock_online) =
             (Some eurusd_quote,
              (initial_system mock_online)
                \<lparr>price_data := [''EURUSD'' \<mapsto> eurusd_quote],
                 trace := [IsConnected, GetPrice ''EURUSD'']\<rparr>)"
    by (simp add: get_price_def fetch_price_def broker_is_connected_def broker_get_price_def
        mock_gateway_def mock_online_def initial_system_def)
  have b: "lower ''buy'' = ''buy''" and sl: "lower ''sell'' = ''sell''"
    by (simp_all add: lower_def lower_char_def)
  have pb: "position_type buy_position = ''buy''"
    and ps: "position_type sell_position = ''sell''"
    by (simp_all add: position_type_def buy_position_def sell_position_def lower_def
        lower_char_def)
  show ?thesis
    using trigger_conditions_inclusive [OF q b sl pb ps,
        of "11000 / 10000" "11050 / 10000" "10950 / 10000"]
    by (simp add: eurusd_quote_def)
qed

section \<open>Adding an instruction\<close>

text \<open>
  \<^verbatim>\<open>float()\<close> on integers: exact below \<open>2 ^ 53\<close>, rounded above, and out of range from
  \<open>2 ^ 1024\<close> on.
\<close>

lemma bit_length_bound: "n < 2 ^ k \<Longrightarrow> bit_length n \<le> k"
proof (induction k arbitrary: n)
  case 0
  then show ?case by (simp add: bit_length.simps)
next
  case (Suc k)
  show ?case
  proof (cases "n = 0")
    case True
    then show ?thesis by (simp add: bit_length.simps)
  next
    case False
    from Suc.prems have "n div 2 < 2 ^ k" by simp
    from Suc.IH [OF this] False show ?thesis
      by (subst bit_length.simps) simp
  qed
qed

lemma int_to_float_exact:
  assumes "\<bar>i\<bar> < 2 ^ 53"
  shows "int_to_float i = Some (of_int i)"
proof -
  let ?n = "nat \<bar>i\<bar>"
  have n: "?n < 2 ^ 53"
    using assms by (simp add: nat_less_iff)
  then have e: "bit_length ?n - 53 = 0"
    using bit_length_bound [of ?n 53] by simp
  have r: "round_half_even ?n 0 = ?n"
    by (simp add: round_half_even_def)
  have "(2::nat) ^ 53 \<le> 2 ^ 1024"
    by (rule power_increasing) simp_all
  with n have lt: "\<not> ?n \<ge> 2 ^ 1024"
    by linarith
  have "(if i < 0 then - real ?n else real ?n) = of_int i"
    by auto
  then show ?thesis
    unfolding int_to_float_def e r Let_def using lt by simp
qed

lemma bit_length_power2: "bit_length (2 ^ k) = Suc k"
proof (induction k)
  case 0
  show ?case by (simp add: bit_length.simps)
next
  case (Suc k)
  then show ?case by (subst bit_length.simps) simp
qed

lemma int_to_float_small:
  "int_to_float 0 = Some 0" "int_to_float 1 = Some 1"
  by (simp_all add: int_to_float_def round_half_even_def bit_length.simps Let_def)

lemma int_to_float_rounds:
  "int_to_float 9007199254740992 = Some 9007199254740992"
  "int_to_float 9007199254740993 = Some 9007199254740992"
  by (simp_all add: int_to_float_def round_half_even_def bit_length.simps Let_def)

lemma int_to_float_overflow: "int_to_float (2 ^ 1024) = None"
proof -
  have "bit_length (nat \<bar>2 ^ 1024\<bar>) = 1025"
    using bit_length_power2 [of 1024] by simp
  then show ?thesis
    by (simp add: int_to_float_def round_half_even_def Let_def)
qed

text \<open>What an accepted instruction is made of.\<close>

lemma validate_accepted:
  assumes "validate_instruction f instruction = Inr (Some ti)"
  shows "numeric_field f (r_entry_price instruction) = Inr (Some (ti_entry_price ti))"
    and "numeric_field f (r_exit_price instruction) = Inr (Some (ti_exit_price ti))"
    and "\<exists>d. direction_value instruction (ti_entry_price ti) (ti_exit_price ti) = PyStr d
             \<and> ti_direction ti = lower d"
  using assms
  by (auto simp: validate_instruction_def coerce_numeric_fields_def
      split: if_splits option.splits sum.splits pyval.splits)

lemma validate_default_direction:
  assumes "r_direction instruction = None"
    and "validate_instruction f instruction = Inr (Some ti)"
  shows "ti_direction ti = (if ti_exit_price ti > ti_entry_price ti then ''buy'' else ''sell'')"
  using validate_accepted(3) [OF assms(2)] assms(1)
  by (auto simp: direction_value_def lower_def lower_char_def split: if_splits)

text \<open>
  Claim C7. When an instruction without \<^verbatim>\<open>direction\<close> is accepted, one instruction is
  appended to the backlog; its prices are the floats that \<^verbatim>\<open>float()\<close> made of
  \<^verbatim>\<open>entry_price\<close> and \<^verbatim>\<open>exit_price\<close>, and its direction is \<^verbatim>\<open>"buy"\<close> iff the exit price
  is greater than the entry price and \<^verbatim>\<open>"sell"\<close> otherwise.
\<close>

theorem add_instruction_default_direction:
  assumes "r_direction instruction = None"
    and "add_trade_instruction str_to_float gw instruction s = (Inr True, s')"
  shows "\<exists>stored. trade_instructions s' = trade_instructions s @ [stored]
           \<and> numeric_field str_to_float (r_entry_price instruction)
               = Inr (Some (ti_entry_price stored))
           \<and> numeric_field str_to_float (r_exit_price instruction)
               = Inr (Some (ti_exit_price stored))
           \<and> (ti_direction stored = ''buy'' \<longleftrightarrow> ti_exit_price stored > ti_entry_price stored)
           \<and> (ti_direction stored = ''sell'' \<longleftrightarrow> \<not> ti_exit_price stored > ti_entry_price stored)"
proof -
  from assms(2) obtain ti where v: "validate_instruction str_to_float instruction = Inr (Some ti)"
    and s': "s' = snd (add_symbol gw (ti_symbol ti)
                    (emit LockRelease ((emit LockAcquire s)
                       \<lparr>trade_instructions := trade_instructions s @ [ti\<lparr>ti_id := next_id s\<rparr>],
                        next_id := Suc (next_id s)\<rparr>)))"
    by (auto simp: add_trade_instruction_def Let_def emit_def split: sum.splits option.splits)
  have d: "ti_direction ti = (if ti_exit_price ti > ti_entry_price ti then ''buy'' else ''sell'')"
    using validate_default_direction [OF assms(1) v] .
  have n: "numeric_field str_to_float (r_entry_price instruction) = Inr (Some (ti_entry_price ti))
         \<and> numeric_field str_to_float (r_exit_price instruction) = Inr (Some (ti_exit_price ti))"
    using validate_accepted(1,2) [OF v] by simp
  have "trade_instructions s' = trade_instructions s @ [ti\<lparr>ti_id := next_id s\<rparr>]"
    by (simp add: s' emit_def)
  with d n show ?thesis by auto
qed

lemma eurusd_added:
  "add_trade_instruction no_strings mock_gateway eurusd_instruction (initial_system mock_online) =
     (Inr True,
      (initial_system mock_online)
        \<lparr>trade_instructions :=
           [\<lparr>ti_id = 1, ti_symbol = ''EURUSD'', ti_entry_price = 11000 / 10000,
             ti_exit_price = 11050 / 10000, ti_stop_loss = 10950 / 10000, ti_lot_size = 1,
             ti_direction = ''buy'', ti_comment = ''Hunter Bot''\<rparr>],
         next_id := 2, symbols_to_monitor := [''EURUSD''],
         price_data := [''EURUSD'' \<mapsto> eurusd_quote],
         trace := [LockAcquire, LockRelease, IsConnected, GetPrice ''EURUSD'']\<rparr>)"
  by (simp add: add_trade_instruction_def validate_instruction_def required_fields_present_def
      coerce_numeric_fields_def numeric_field_def int_to_float_small
      direction_value_def eurusd_instruction_def lower_def lower_char_def
      emit_def add_symbol_def broker_is_connected_def broker_get_price_def mock_gateway_def
      mock_online_def initial_system_def Let_def)

lemma rounding_added:
  "fst (add_trade_instruction no_strings mock_gateway rounding_instruction
          (initial_system mock_online)) = Inr True"
  by (simp add: add_trade_instruction_def validate_instruction_def required_fields_present_def
      coerce_numeric_fields_def numeric_field_def int_to_float_small int_to_float_rounds
      direction_value_def rounding_instruction_def eurusd_instruction_def lower_def
      lower_char_def Let_def split: sum.splits option.splits)

theorem add_instruction_default_direction_witness:
  "(\<exists>stored.
     trade_instructions (snd (add_trade_instruction no_strings mock_gateway eurusd_instruction
                                (initial_system mock_online))) = [stored]
     \<and> ti_entry_price stored = 11000 / 10000 \<and> ti_exit_price stored = 11050 / 10000
     \<and> ti_direction stored = ''buy'')
   \<and> (\<exists>stored.
     trade_instructions (snd (add_trade_instruction no_strings mock_gateway rounding_instruction
                                (initial_system mock_online))) = [stored]
     \<and> ti_entry_price stored = 9007199254740992 \<and> ti_exit_price stored = 9007199254740992
     \<and> ti_direction stored = ''sell'')"
proof -
  have "\<exists>stored.
     trade_instructions (snd (add_trade_instruction no_strings mock_gateway eurusd_instruction
                                (initial_system mock_online))) = [stored]
     \<and> ti_entry_price stored = 11000 / 10000 \<and> ti_exit_price stored = 11050 / 10000
     \<and> ti_direction stored = ''buy''"
  proof -
    have d: "r_direction eurusd_instruction = None"
      by (simp add: eurusd_instruction_def)
    obtain res s' where r: "add_trade_instruction no_strings mock_gateway eurusd_instruction
        (initial_system mock_online) = (res, s')"
      by fastforce
    with eurusd_added have res: "res = Inr True" by simp
    from add_instruction_default_direction [OF d r [unfolded res]]
    obtain stored where
      st: "trade_instructions s' = trade_instructions (initial_system mock_online) @ [stored]"
      and e: "numeric_field no_strings (r_entry_price eurusd_instruction)
                = Inr (Some (ti_entry_price stored))"
      and x: "numeric_field no_strings (r_exit_price eurusd_instruction)
                = Inr (Some (ti_exit_price stored))"
      and b: "ti_direction stored = ''buy'' \<longleftrightarrow> ti_exit_price stored > ti_entry_price stored"
      by blast
    have e': "ti_entry_price stored = 11000 / 10000"
      using e by (simp add: numeric_field_def eurusd_instruction_def)
    have x': "ti_exit_price stored = 11050 / 10000"
      using x by (simp add: numeric_field_def eurusd_instruction_def)
    have "ti_direction stored = ''buy''"
      using b by (simp add: e' x')
    moreover have "trade_instructions s' = [stored]"
      using st by (simp add: initial_system_def)
    ultimately show ?thesis
      using e' x' by (simp add: r)
  qed
  moreover have "\<exists>stored.
     trade_instructions (snd (add_trade_instruction no_strings mock_gateway rounding_instruction
                                (initial_system mock_online))) = [stored]
     \<and> ti_entry_price stored = 9007199254740992 \<and> ti_exit_price stored = 9007199254740992
     \<and> ti_direction stored = ''sell''"
  proof -
    have d: "r_direction rounding_instruction = None"
      by (simp add: rounding_instruction_def eurusd_instruction_def)
    obtain res s' where r: "add_trade_instruction no_strings mock_gateway rounding_instruction
        (initial_system mock_online) = (res, s')"
      by fastforce
    with rounding_added have res: "res = Inr True" by simp
    from add_instruction_default_direction [OF d r [unfolded res]]
    obtain stored where
      st: "trade_instructions s' = trade_instructions (initial_system mock_online) @ [stored]"
      and e: "numeric_field no_strings (r_entry_price rounding_instruction)
                = Inr (Some (ti_entry_price stored))"
      and x: "numeric_field no_strings (r_exit_price rounding_instruction)
                = Inr (Some (ti_exit_price stored))"
      and b: "ti_direction stored = ''sell'' \<longleftrightarrow> \<not> ti_exit_price stored > ti_entry_price stored"
      by blast
    have e': "ti_entry_price stored = 9007199254740992"
      using e by (simp add: numeric_field_def rounding_instruction_def int_to_float_rounds)
    have x': "ti_exit_price stored = 9007199254740992"
      using x by (simp add: numeric_field_def rounding_instruction_def int_to_float_rounds)
    have "ti_direction stored = ''sell''"
      using b by (simp add: e' x')
    moreover have "trade_instructions s' = [stored]"
      using st by (simp add: initial_system_def)
    ultimately show ?thesis
      using e' x' by (simp add: r)
  qed
  ultimately show ?thesis by blast
qed

section \<open>Rejected instructions\<close>

text \<open>
  An instruction that \<^verbatim>\<open>add_trade_instruction\<close> turns down, by returning \<^verbatim>\<open>False\<close> or by
  raising, leaves the state as it was. It returns \<^verbatim>\<open>False\<close> for a missing required
  field, for a numeric field that \<^verbatim>\<open>float()\<close> refuses with \<^verbatim>\<open>ValueError\<close> or
  \<^verbatim>\<open>TypeError\<close>, and for a direction string other than buy and sell.
\<close>

lemma add_rejected_unchanged:
  "validate_instruction str_to_float instruction = Inr None \<Longrightarrow>
   add_trade_instruction str_to_float gw instruction s = (Inr False, s)"
  by (simp add: add_trade_instruction_def)

lemma add_raised_unchanged:
  "validate_instruction str_to_float instruction = Inl err \<Longrightarrow>
   add_trade_instruction str_to_float gw instruction s = (Inl err, s)"
  by (simp add: add_trade_instruction_def)

lemma validate_missing_field:
  "r_symbol instruction = None \<or> r_entry_price instruction = None \<or>
   r_exit_price instruction = None \<or> r_stop_loss instruction = None \<or>
   r_lot_size instruction = None \<Longrightarrow>
   validate_instruction str_to_float instruction = Inr None"
  by (auto simp: validate_instruction_def required_fields_present_def)

lemma validate_not_numeric:
  assumes "numeric_field str_to_float (r_entry_price instruction) = Inr r1"
    and "numeric_field str_to_float (r_exit_price instruction) = Inr r2"
    and "numeric_field str_to_float (r_stop_loss instruction) = Inr r3"
    and "numeric_field str_to_float (r_lot_size instruction) = Inr r4"
    and "r1 = None \<or> r2 = None \<or> r3 = None \<or> r4 = None"
  shows "validate_instruction str_to_float instruction = Inr None"
  using assms
  by (auto simp: validate_instruction_def coerce_numeric_fields_def split: option.splits)

lemma validate_unknown_direction:
  assumes "coerce_numeric_fields str_to_float instruction = Inr numbers"
    and "r_direction instruction = Some (PyStr d)"
    and "lower d \<noteq> ''buy''" and "lower d \<noteq> ''sell''"
  shows "validate_instruction str_to_float instruction = Inr None"
  using assms
  by (auto simp: validate_instruction_def direction_value_def split: option.splits)

text \<open>
  An integer beyond the float range makes \<^verbatim>\<open>float()\<close> raise \<^verbatim>\<open>OverflowError\<close>, which the
  method does not catch. A direction that is not a string passes every check before
  \<^verbatim>\<open>.lower()\<close> is called on it, and that call raises.
\<close>

lemma validate_overflow:
  assumes "required_fields_present instruction"
    and "numeric_field str_to_float (r_entry_price instruction) = Inl OverflowError"
  shows "validate_instruction str_to_float instruction = Inl OverflowError"
  using assms by (simp add: validate_instruction_def coerce_numeric_fields_def)

lemma validate_direction_not_a_string:
  assumes "required_fields_present instruction"
    and "coerce_numeric_fields str_to_float instruction = Inr (Some numbers)"
    and "r_direction instruction = Some v" and "\<forall>d. v \<noteq> PyStr d"
  shows "validate_instruction str_to_float instruction = Inl AttributeError"
  using assms
  by (cases v) (auto simp: validate_instruction_def direction_value_def split: prod.splits)

text \<open>
  Claim C6 says that every instruction failing validation makes the call return
  \<^verbatim>\<open>False\<close>. For an otherwise valid instruction with \<^verbatim>\<open>"direction": None\<close> the call
  raises \<^verbatim>\<open>AttributeError\<close> instead (the state is unchanged).
\<close>

theorem add_instruction_null_direction_raises:
  "add_trade_instruction no_strings mock_gateway null_direction_instruction
     (initial_system mock_online) = (Inl AttributeError, initial_system mock_online)"
  by (simp add: add_trade_instruction_def validate_instruction_def required_fields_present_def
      coerce_numeric_fields_def numeric_field_def int_to_float_small direction_value_def
      null_direction_instruction_def eurusd_instruction_def)

section \<open>Closing a trade that is not registered\<close>

text \<open>
  Claim C9. When no active trade has the ticket, \<^verbatim>\<open>close_trade\<close> returns \<^verbatim>\<open>False\<close> and the
  state afterwards is the state before with two more events, the lock taken and released
  for the lookup: no \<^verbatim>\<open>close_position\<close> call, no sleep, and the backlog, the registry,
  the monitor's symbols and the broker as they were.
\<close>

theorem close_trade_unknown_ticket:
  assumes "ticket \<notin> at_ticket ` set (active_trades s)"
  shows "close_trade gw ticket s = (False, s\<lparr>trace := trace s @ [LockAcquire, LockRelease]\<rparr>)"
proof -
  have "find (\<lambda>trade. at_ticket trade = ticket) (active_trades s) = None"
    using assms by (auto simp: find_None_iff)
  then show ?thesis
    by (simp add: close_trade_def internal_close_trade_def emit_def)
qed

theorem close_trade_unknown_ticket_witness:
  "close_trade mock_gateway 7 (one_trade_system mock_online) =
     (False, (one_trade_system mock_online)\<lparr>trace := [LockAcquire, LockRelease]\<rparr>)"
  using close_trade_unknown_ticket [of 7 "one_trade_system mock_online" mock_gateway]
  by (simp add: one_trade_system_def initial_system_def eurusd_trade_def)

section \<open>Closing a registered trade\<close>

text \<open>
  A successful close removes the trade that was looked up and leaves the monitor with
  no symbol beyond those of the remaining instructions and trades.
\<close>

lemma close_attempts_success:
  assumes "close_attempts gw ticket tr n s = (True, s')"
  shows "active_trades s' = remove1 tr (active_trades s)
       \<and> trade_instructions s' = trade_instructions s
       \<and> set (symbols_to_monitor s') \<subseteq> set (symbols_needed s')"
  using assms
proof (induction n arbitrary: s)
  case 0
  then show ?case by simp
next
  case (Suc n)
  obtain ok s1 where c: "broker_close_position gw ticket s = (ok, s1)"
    by fastforce
  then have f1: "active_trades s1 = active_trades s" "trade_instructions s1 = trade_instructions s"
    by (auto simp: broker_close_position_def case_prod_unfold)
  show ?case
  proof (cases ok)
    case True
    let ?s3 = "(emit LockAcquire s1)\<lparr>active_trades := remove1 tr (active_trades (emit LockAcquire s1))\<rparr>"
    have s': "s' = emit LockRelease (update_monitored_symbols gw ?s3)"
      using Suc.prems c True by (simp add: Let_def)
    have "set (symbols_to_monitor (update_monitored_symbols gw ?s3)) \<subseteq> set (symbols_needed ?s3)"
      by (rule update_monitored_symbols_subset)
    moreover have "symbols_needed s' = symbols_needed ?s3"
      by (simp add: s' symbols_needed_def emit_def update_monitored_symbols_fields)
    ultimately show ?thesis
      using f1 by (simp add: s' emit_def update_monitored_symbols_fields)
  next
    case False
    with Suc.prems c have "close_attempts gw ticket tr n (sleep (retry_delay s1) s1) = (True, s')"
      by simp
    from Suc.IH [OF this] show ?thesis
      using f1 by (simp add: sleep_def)
  qed
qed

lemma distinct_remove1_image:
  "distinct (map f xs) \<Longrightarrow> x \<in> set xs \<Longrightarrow> f x \<notin> f ` set (remove1 x xs)"
  by (induction xs) (auto simp: image_iff)

text \<open>
  Claim C5. After \<^verbatim>\<open>close_trade(ticket)\<close> has returned \<^verbatim>\<open>True\<close>, the ticket is not among
  \<^verbatim>\<open>get_active_trades()\<close>, and the symbol of the closed trade is not monitored unless a
  remaining instruction or a remaining active trade has that symbol. Tickets are unique
  in the registry, as the data model has it (they are assigned by the broker).
\<close>

theorem close_trade_success:
  assumes "close_trade gw ticket s = (True, s')"
    and "distinct (map at_ticket (active_trades s))"
  shows "ticket \<notin> at_ticket ` set (fst (get_active_trades s'))
       \<and> (\<forall>trade \<in> set (active_trades s).
             at_ticket trade = ticket \<longrightarrow>
             at_symbol trade \<notin> ti_symbol ` set (trade_instructions s') \<longrightarrow>
             at_symbol trade \<notin> at_symbol ` set (active_trades s') \<longrightarrow>
             at_symbol trade \<notin> set (symbols_to_monitor s'))"
proof -
  let ?s2 = "emit LockRelease (emit LockAcquire s)"
  from assms(1) obtain tr where
    f: "find (\<lambda>trade. at_ticket trade = ticket) (active_trades s) = Some tr"
    and c: "close_attempts gw ticket tr (nat (max_retries ?s2)) ?s2 = (True, s')"
    by (auto simp: close_trade_def internal_close_trade_def emit_def Let_def split: option.splits)
  from f have tr: "tr \<in> set (active_trades s)" "at_ticket tr = ticket"
    by (auto simp: find_Some_iff)
  from close_attempts_success [OF c]
  have a: "active_trades s' = remove1 tr (active_trades s)"
    and w: "set (symbols_to_monitor s') \<subseteq> set (symbols_needed s')"
    by (simp_all add: emit_def)
  have "ticket \<notin> at_ticket ` set (active_trades s')"
    using distinct_remove1_image [OF assms(2) tr(1)] by (simp add: a tr(2))
  moreover have "\<And>symbol. symbol \<notin> ti_symbol ` set (trade_instructions s') \<Longrightarrow>
      symbol \<notin> at_symbol ` set (active_trades s') \<Longrightarrow> symbol \<notin> set (symbols_to_monitor s')"
    using w by (auto simp: symbols_needed_def)
  ultimately show ?thesis
    by (simp add: get_active_trades_def emit_def Let_def)
qed

theorem close_trade_success_witness:
  "close_trade mock_gateway 1001 (one_trade_system mock_online) =
     (True,
      (one_trade_system mock_online)
        \<lparr>active_trades := [], symbols_to_monitor := [], price_data := Map.empty,
         trace := [LockAcquire, LockRelease, ClosePosition 1001,
                   LockAcquire, LockAcquire, LockRelease, LockRelease]\<rparr>)
   \<and> fst (get_active_trades (snd (close_trade mock_gateway 1001 (one_trade_system mock_online)))) = []
   \<and> ''EURUSD'' \<notin> set (symbols_to_monitor
                          (snd (close_trade mock_gateway 1001 (one_trade_system mock_online))))"
proof -
  have r: "close_trade mock_gateway 1001 (one_trade_system mock_online) =
     (True,
      (one_trade_system mock_online)
        \<lparr>active_trades := [], symbols_to_monitor := [], price_data := Map.empty,
         trace := [LockAcquire, LockRelease, ClosePosition 1001,
                   LockAcquire, LockAcquire, LockRelease, LockRelease]\<rparr>)"
    by (simp add: close_trade_def internal_close_trade_def emit_def one_trade_system_def
      initial_system_def eurusd_trade_def numeral_3_eq_3 broker_close_position_def
      mock_gateway_def mock_online_def update_monitored_symbols_def symbols_needed_def
      remove_symbol_def Let_def)
  have d: "distinct (map at_ticket (active_trades (one_trade_system mock_online)))"
    by (simp add: one_trade_system_def)
  show ?thesis
    using close_trade_success [OF r d]
    by (simp add: r get_active_trades_def emit_def Let_def)
qed

section \<open>Retries\<close>

text \<open>
  Against a broker that never closes the position, \<open>n\<close> attempts are \<open>n\<close> calls of
  \<^verbatim>\<open>close_position\<close>, each followed by a sleep of \<open>retry_delay\<close>, the last one included;
  \<^verbatim>\<open>close_trade\<close> makes \<open>max_retries\<close> attempts, returns \<^verbatim>\<open>False\<close> and leaves backlog,
  registry and monitor as they were. The same holds for the order placement of
  \<^verbatim>\<open>_execute_trade\<close> against a broker that refuses every order.
\<close>

lemma close_attempts_all_fail:
  assumes "\<And>b. \<not> fst (gw_close_position gw b ticket)"
  shows "\<exists>b. close_attempts gw ticket tr n s =
           (False, s\<lparr>broker := b, clock := clock s + of_nat n * retry_delay s,
                     trace := trace s @ concat (replicate n [ClosePosition ticket,
                                                             Sleep (retry_delay s)])\<rparr>)"
proof (induction n arbitrary: s)
  case 0
  show ?case by (auto intro: exI [of _ "broker s"])
next
  case (Suc n)
  let ?s1 = "sleep (retry_delay s) (snd (broker_close_position gw ticket s))"
  from Suc.IH [of ?s1] obtain b where
    "close_attempts gw ticket tr n ?s1 =
       (False, ?s1\<lparr>broker := b, clock := clock ?s1 + of_nat n * retry_delay ?s1,
                   trace := trace ?s1 @ concat (replicate n [ClosePosition ticket,
                                                            Sleep (retry_delay ?s1)])\<rparr>)"
    by blast
  then show ?case
    using assms [of "broker s"]
    by (auto simp: broker_close_position_def sleep_def case_prod_unfold algebra_simps
        intro!: exI [of _ b])
qed

lemma close_trade_all_fail:
  assumes "\<And>b. \<not> fst (gw_close_position gw b ticket)"
    and "find (\<lambda>trade. at_ticket trade = ticket) (active_trades s) = Some tr"
  shows "\<exists>b. close_trade gw ticket s =
           (False, s\<lparr>broker := b,
                     clock := clock s + of_nat (nat (max_retries s)) * retry_delay s,
                     trace := trace s @ [LockAcquire, LockRelease]
                                @ concat (replicate (nat (max_retries s))
                                            [ClosePosition ticket, Sleep (retry_delay s)])\<rparr>)"
proof -
  let ?s2 = "emit LockRelease (emit LockAcquire s)"
  from close_attempts_all_fail [OF assms(1), of tr "nat (max_retries ?s2)" ?s2]
  obtain b where "close_attempts gw ticket tr (nat (max_retries ?s2)) ?s2 =
           (False, ?s2\<lparr>broker := b, clock := clock ?s2 + of_nat (nat (max_retries ?s2)) * retry_delay ?s2,
                     trace := trace ?s2 @ concat (replicate (nat (max_retries ?s2))
                                 [ClosePosition ticket, Sleep (retry_delay ?s2)])\<rparr>)"
    by blast
  then show ?thesis
    using assms(2)
    by (auto simp: close_trade_def internal_close_trade_def emit_def Let_def intro!: exI [of _ b])
qed

lemma place_attempts_all_fail:
  assumes "\<And>b req. fst (gw_place_market_order gw b req) = None"
  shows "\<exists>b. place_attempts gw instruction price n s =
           (False, s\<lparr>broker := b, clock := clock s + of_nat n * retry_delay s,
                     trace := trace s @ concat (replicate n [PlaceMarketOrder (order_of instruction),
                                                             Sleep (retry_delay s)])\<rparr>)"
proof (induction n arbitrary: s)
  case 0
  show ?case by (auto intro: exI [of _ "broker s"])
next
  case (Suc n)
  let ?s1 = "sleep (retry_delay s) (snd (broker_place_market_order gw (order_of instruction) s))"
  from Suc.IH [of ?s1] obtain b where
    "place_attempts gw instruction price n ?s1 =
       (False, ?s1\<lparr>broker := b, clock := clock ?s1 + of_nat n * retry_delay ?s1,
                   trace := trace ?s1 @ concat (replicate n [PlaceMarketOrder (order_of instruction),
                                                            Sleep (retry_delay ?s1)])\<rparr>)"
    by blast
  then show ?case
    using assms [of "broker s" "order_of instruction"]
    by (auto simp: broker_place_market_order_def sleep_def case_prod_unfold algebra_simps
        intro!: exI [of _ b])
qed

text \<open>
  Claim C3 says that a failing \<^verbatim>\<open>close_trade\<close> makes \<open>max_retries\<close> attempts and sleeps
  between consecutive attempts only, and that order placement retries in the same way.
  With three attempts the code sleeps three times in both loops: the third sleep follows
  the last attempt. The attempts are three, the close returns \<^verbatim>\<open>False\<close>, and the trade
  and the instruction stay where they were.
\<close>

theorem retry_loops_sleep_after_last_attempt:
  "close_trade mock_gateway 1001 (one_trade_system mock_close_fails) =
     (False,
      (one_trade_system mock_close_fails)
        \<lparr>clock := 103,
         trace := [LockAcquire, LockRelease,
                   ClosePosition 1001, Sleep 1,
                   ClosePosition 1001, Sleep 1,
                   ClosePosition 1001, Sleep 1]\<rparr>)
   \<and> on_entry_condition mock_gateway ''EURUSD'' eurusd_quote
       (one_instruction_system mock_orders_refused) =
     (one_instruction_system mock_orders_refused)
        \<lparr>clock := 103,
         trace := [LockAcquire, LockRelease,
                   PlaceMarketOrder (order_of eurusd_pending), Sleep 1,
                   PlaceMarketOrder (order_of eurusd_pending), Sleep 1,
                   PlaceMarketOrder (order_of eurusd_pending), Sleep 1]\<rparr>"
proof -
  have a: "close_trade mock_gateway 1001 (one_trade_system mock_close_fails) =
     (False,
      (one_trade_system mock_close_fails)
        \<lparr>clock := 103,
         trace := [LockAcquire, LockRelease,
                   ClosePosition 1001, Sleep 1,
                   ClosePosition 1001, Sleep 1,
                   ClosePosition 1001, Sleep 1]\<rparr>)"
    by (simp add: close_trade_def internal_close_trade_def emit_def one_trade_system_def
      initial_system_def eurusd_trade_def numeral_3_eq_3 broker_close_position_def
      mock_gateway_def mock_close_fails_def mock_online_def sleep_def)
  have m: "entry_matches ''EURUSD'' eurusd_quote eurusd_pending"
    by (simp add: entry_matches_def eurusd_pending_def eurusd_quote_def)
  have b: "on_entry_condition mock_gateway ''EURUSD'' eurusd_quote
       (one_instruction_system mock_orders_refused) =
     (one_instruction_system mock_orders_refused)
        \<lparr>clock := 103,
         trace := [LockAcquire, LockRelease,
                   PlaceMarketOrder (order_of eurusd_pending), Sleep 1,
                   PlaceMarketOrder (order_of eurusd_pending), Sleep 1,
                   PlaceMarketOrder (order_of eurusd_pending), Sleep 1]\<rparr>"
    by (simp add: on_entry_condition_def execute_trade_def emit_def m one_instruction_system_def
      initial_system_def numeral_3_eq_3 broker_place_market_order_def
      mock_gateway_def mock_orders_refused_def mock_online_def sleep_def Let_def)
  from a b show ?thesis by simp
qed

section \<open>The quote cache\<close>

text \<open>
  Claim C10 says that a cached entry without a \<^verbatim>\<open>time\<close> key is always returned. The
  connectivity guard at the head of \<^verbatim>\<open>PriceMonitor.get_price\<close> comes first: with the
  broker disconnected the result is \<^verbatim>\<open>None\<close>, whatever the cache holds.
\<close>

theorem get_price_untimed_cache_counterexample:
  "price_data (untimed_cache_system mock_offline) ''EURUSD'' = Some stale_untimed_quote
   \<and> qtime stale_untimed_quote = None
   \<and> fst (get_price mock_gateway ''EURUSD'' (untimed_cache_system mock_offline)) = None"
  by (simp add: get_price_def broker_is_connected_def mock_gateway_def mock_offline_def
      mock_online_def untimed_cache_system_def initial_system_def stale_untimed_quote_def)

text \<open>
  Claim C10, amended. For a cached entry without a \<^verbatim>\<open>time\<close> key, \<^verbatim>\<open>get_price\<close> makes
  the connectivity check and no other call to the broker, whatever the clock says: it
  returns the cached entry when the broker reports that it is connected, and \<^verbatim>\<open>None\<close>
  when it does not; the cache is not touched. For a cached entry with a \<^verbatim>\<open>time\<close> key
  and a connected broker, the entry is returned when it is less than 5 seconds old, and
  otherwise the quote is fetched from the broker.
\<close>

theorem get_price_untimed_cache:
  "(price_data s symbol = Some cached \<and> qtime cached = None \<longrightarrow>
      get_price gw symbol s =
        (if fst (gw_is_connected gw (broker s)) then Some cached else None,
         s\<lparr>broker := snd (gw_is_connected gw (broker s)), trace := trace s @ [IsConnected]\<rparr>))
   \<and> (price_data s symbol = Some timed \<and> qtime timed = Some t
        \<and> fst (gw_is_connected gw (broker s)) \<longrightarrow>
      get_price gw symbol s =
        (if clock s - t < 5
         then (Some timed,
               s\<lparr>broker := snd (gw_is_connected gw (broker s)),
                  trace := trace s @ [IsConnected]\<rparr>)
         else fetch_price gw symbol
                (s\<lparr>broker := snd (gw_is_connected gw (broker s)),
                   trace := trace s @ [IsConnected]\<rparr>)))"
  by (simp add: get_price_def broker_is_connected_def case_prod_unfold)

theorem get_price_untimed_cache_witness:
  "get_price mock_gateway ''EURUSD'' (untimed_cache_system mock_online) =
     (Some stale_untimed_quote, (untimed_cache_system mock_online)\<lparr>trace := [IsConnected]\<rparr>)
   \<and> get_price mock_gateway ''EURUSD'' (untimed_cache_system mock_offline) =
     (None, (untimed_cache_system mock_offline)\<lparr>trace := [IsConnected]\<rparr>)
   \<and> get_price mock_gateway ''EURUSD'' (one_trade_system mock_online) =
     (Some eurusd_quote, (one_trade_system mock_online)\<lparr>trace := [IsConnected]\<rparr>)
   \<and> get_price mock_gateway ''EURUSD'' ((one_trade_system mock_online)\<lparr>clock := 105\<rparr>) =
     (Some eurusd_quote,
      (one_trade_system mock_online)\<lparr>clock := 105, trace := [IsConnected, GetPrice ''EURUSD'']\<rparr>)"
proof -
  note main = get_price_untimed_cache
  have a: "get_price mock_gateway ''EURUSD'' (untimed_cache_system mock_online) =
     (Some stale_untimed_quote, (untimed_cache_system mock_online)\<lparr>trace := [IsConnected]\<rparr>)"
    using main [of "untimed_cache_system mock_online" "''EURUSD''" stale_untimed_quote mock_gateway]
    by (simp add: mock_gateway_def mock_online_def untimed_cache_system_def initial_system_def
        stale_untimed_quote_def)
  have b: "get_price mock_gateway ''EURUSD'' (untimed_cache_system mock_offline) =
     (None, (untimed_cache_system mock_offline)\<lparr>trace := [IsConnected]\<rparr>)"
    using main [of "untimed_cache_system mock_offline" "''EURUSD''" stale_untimed_quote mock_gateway]
    by (simp add: mock_gateway_def mock_offline_def mock_online_def untimed_cache_system_def
        initial_system_def stale_untimed_quote_def)
  have c: "get_price mock_gateway ''EURUSD'' (one_trade_system mock_online) =
     (Some eurusd_quote, (one_trade_system mock_online)\<lparr>trace := [IsConnected]\<rparr>)"
    using main [of "one_trade_system mock_online" "''EURUSD''" _ mock_gateway eurusd_quote 100]
    by (simp add: mock_gateway_def mock_online_def one_trade_system_def initial_system_def
        eurusd_quote_def)
  have d: "get_price mock_gateway ''EURUSD'' ((one_trade_system mock_online)\<lparr>clock := 105\<rparr>) =
     (Some eurusd_quote,
      (one_trade_system mock_online)\<lparr>clock := 105, trace := [IsConnected, GetPrice ''EURUSD'']\<rparr>)"
    using main [of "(one_trade_system mock_online)\<lparr>clock := 105\<rparr>" "''EURUSD''" _ mock_gateway
        eurusd_quote 100]
    by (simp add: fetch_price_def broker_get_price_def mock_gateway_def mock_online_def
        one_trade_system_def initial_system_def eurusd_quote_def)
  from a b c d show ?thesis by simp
qed

section \<open>Disconnection and failed quotes in the monitoring loop\<close>

text \<open>
  Claim C4. At the head of a cycle (stop event not set): if the broker is not
  connected, the loop ends there, whatever the later values of the stop event, having
  done nothing but the connectivity check; if it is connected, the cycle runs and the
  loop goes on to the next head. Inside a cycle, a symbol whose quote cannot be fetched
  costs the fetch attempt only, without cache update or callback, and the remaining
  symbols are treated as usual.
\<close>

theorem monitoring_loop_disconnect_and_fetch_failure:
  "(\<not> fst (gw_is_connected gw (broker s)) \<longrightarrow>
      monitoring_loop gw cbs (False # stops) s =
        Some (ConnectionLost,
              s\<lparr>broker := snd (gw_is_connected gw (broker s)), trace := trace s @ [IsConnected]\<rparr>))
   \<and> (fst (gw_is_connected gw (broker s)) \<longrightarrow>
      monitoring_loop gw cbs (False # stops) s =
        monitoring_loop gw cbs stops
          (let s2 = monitoring_cycle gw cbs (snd (broker_is_connected gw s))
           in sleep (update_interval s2) s2))
   \<and> (fst (gw_get_price gw (broker st) symbol) = None \<longrightarrow>
      monitor_symbols gw cbs positions (symbol # symbols) st =
        monitor_symbols gw cbs positions symbols
          (st\<lparr>broker := snd (gw_get_price gw (broker st) symbol),
              trace := trace st @ [GetPrice symbol]\<rparr>))"
  by (simp add: broker_is_connected_def monitor_symbols_def monitor_symbol_def
      broker_get_price_def case_prod_unfold Let_def)

theorem monitoring_loop_disconnect_and_fetch_failure_witness:
  "monitoring_loop mock_gateway (executor_callbacks mock_gateway) [False, False, False]
     (two_symbol_system mock_offline) =
     Some (ConnectionLost, (two_symbol_system mock_offline)\<lparr>trace := [IsConnected]\<rparr>)
   \<and> monitoring_loop mock_gateway (executor_callbacks mock_gateway) [False, True]
     (two_symbol_system mock_online) =
     Some (Stopped,
           (two_symbol_system mock_online)
             \<lparr>price_data := [''EURUSD'' \<mapsto> eurusd_quote], clock := 101,
              trace := [IsConnected, GetPositions, GetPrice ''XAUUSD'', GetPrice ''EURUSD'',
                        LockAcquire, LockRelease, Sleep 1]\<rparr>)
   \<and> monitor_symbols mock_gateway (executor_callbacks mock_gateway) [] [''XAUUSD'', ''EURUSD'']
       (two_symbol_system mock_online) =
     monitor_symbols mock_gateway (executor_callbacks mock_gateway) [] [''EURUSD'']
       ((two_symbol_system mock_online)\<lparr>trace := [GetPrice ''XAUUSD'']\<rparr>)"
proof -
  let ?cbs = "executor_callbacks mock_gateway"
  have down: "\<not> fst (gw_is_connected mock_gateway (broker (two_symbol_system mock_offline)))"
    by (simp add: mock_gateway_def two_symbol_system_def initial_system_def mock_offline_def
        mock_online_def)
  have up: "fst (gw_is_connected mock_gateway (broker (two_symbol_system mock_online)))"
    by (simp add: mock_gateway_def two_symbol_system_def initial_system_def mock_online_def)
  have noq: "fst (gw_get_price mock_gateway (broker (two_symbol_system mock_online)) ''XAUUSD'')
               = None"
    by (simp add: mock_gateway_def two_symbol_system_def initial_system_def mock_online_def)
  note main = monitoring_loop_disconnect_and_fetch_failure
  have a: "monitoring_loop mock_gateway ?cbs [False, False, False] (two_symbol_system mock_offline)
             = Some (ConnectionLost, (two_symbol_system mock_offline)\<lparr>trace := [IsConnected]\<rparr>)"
    using main [of mock_gateway "two_symbol_system mock_offline" ?cbs "[False, False]"] down
    by (simp add: mock_gateway_def two_symbol_system_def initial_system_def)
  have c: "monitor_symbols mock_gateway ?cbs [] [''XAUUSD'', ''EURUSD'']
             (two_symbol_system mock_online) =
           monitor_symbols mock_gateway ?cbs [] [''EURUSD'']
             ((two_symbol_system mock_online)\<lparr>trace := [GetPrice ''XAUUSD'']\<rparr>)"
    using main [of mock_gateway "two_symbol_system mock_online" ?cbs "[]"
        "two_symbol_system mock_online" "''XAUUSD''" "[]" "[''EURUSD'']"] noq
    by (simp add: mock_gateway_def two_symbol_system_def initial_system_def)
  have cyc: "monitoring_cycle mock_gateway ?cbs
               ((two_symbol_system mock_online)\<lparr>trace := [IsConnected]\<rparr>) =
             (two_symbol_system mock_online)
               \<lparr>price_data := [''EURUSD'' \<mapsto> eurusd_quote],
                trace := [IsConnected, GetPositions, GetPrice ''XAUUSD'', GetPrice ''EURUSD'',
                          LockAcquire, LockRelease]\<rparr>"
    by (simp add: monitoring_cycle_def broker_get_positions_def add_position_symbols_def
        monitor_symbols_def monitor_symbol_def broker_get_price_def executor_callbacks_def
        on_entry_condition_def emit_def mock_gateway_def two_symbol_system_def
        initial_system_def mock_online_def Let_def)
  have conn: "snd (broker_is_connected mock_gateway (two_symbol_system mock_online)) =
               (two_symbol_system mock_online)\<lparr>trace := [IsConnected]\<rparr>"
    by (simp add: broker_is_connected_def mock_gateway_def two_symbol_system_def
        initial_system_def)
  let ?after = "(two_symbol_system mock_online)
               \<lparr>price_data := [''EURUSD'' \<mapsto> eurusd_quote],
                trace := [IsConnected, GetPositions, GetPrice ''XAUUSD'', GetPrice ''EURUSD'',
                          LockAcquire, LockRelease]\<rparr>"
  have "monitoring_loop mock_gateway ?cbs [False, True] (two_symbol_system mock_online) =
          monitoring_loop mock_gateway ?cbs [True] (sleep (update_interval ?after) ?after)"
    using main [of mock_gateway "two_symbol_system mock_online" ?cbs "[True]"] up
    by (simp only: conn cyc Let_def simp_thms)
  also have "\<dots> = Some (Stopped,
           (two_symbol_system mock_online)
             \<lparr>price_data := [''EURUSD'' \<mapsto> eurusd_quote], clock := 101,
              trace := [IsConnected, GetPositions, GetPrice ''XAUUSD'', GetPrice ''EURUSD'',
                        LockAcquire, LockRelease, Sleep 1]\<rparr>)"
    by (simp add: sleep_def two_symbol_system_def initial_system_def)
  finally have b: "monitoring_loop mock_gateway ?cbs [False, True] (two_symbol_system mock_online) =
     Some (Stopped,
           (two_symbol_system mock_online)
             \<lparr>price_data := [''EURUSD'' \<mapsto> eurusd_quote], clock := 101,
              trace := [IsConnected, GetPositions, GetPrice ''XAUUSD'', GetPrice ''EURUSD'',
                        LockAcquire, LockRelease, Sleep 1]\<rparr>)" .
  from a b c show ?thesis by simp
qed

section \<open>The lock and the broker\<close>

lemma lock_discipline_append:
  "lock_discipline d (xs @ ys) =
     (case lock_discipline d xs of None \<Rightarrow> None | Some d' \<Rightarrow> lock_discipline d' ys)"
  by (induction d xs rule: lock_discipline.induct) auto

lemma calm_Nil [simp]: "calm []"
  by (simp add: calm_def)

lemma calm_append: "calm xs \<Longrightarrow> calm ys \<Longrightarrow> calm (xs @ ys)"
  by (simp add: calm_def lock_discipline_append)

lemma add_symbol_calm:
  "\<exists>evs. trace (snd (add_symbol gw symbol s)) = trace s @ evs \<and> calm evs"
  by (auto simp: add_symbol_def broker_is_connected_def broker_get_price_def case_prod_unfold
      calm_def split: option.splits)

lemma remove_symbol_trace [simp]: "trace (snd (remove_symbol symbol s)) = trace s"
  by (simp add: remove_symbol_def)

lemma fold_add_symbol_calm:
  "\<exists>evs. trace (fold (\<lambda>symbol st. snd (add_symbol gw symbol st)) xs s) = trace s @ evs \<and> calm evs"
proof (induction xs arbitrary: s)
  case Nil
  show ?case by simp
next
  case (Cons x xs)
  obtain e1 where e1: "trace (snd (add_symbol gw x s)) = trace s @ e1" "calm e1"
    using add_symbol_calm by blast
  obtain e2 where e2: "trace (fold (\<lambda>symbol st. snd (add_symbol gw symbol st)) xs
                                 (snd (add_symbol gw x s)))
                       = trace (snd (add_symbol gw x s)) @ e2" "calm e2"
    using Cons.IH by blast
  show ?case
    using e1 e2 by (auto intro!: exI [of _ "e1 @ e2"] calm_append)
qed

lemma fold_remove_symbol_trace [simp]:
  "trace (fold (\<lambda>symbol st. snd (remove_symbol symbol st)) xs s) = trace s"
  by (induction xs arbitrary: s) simp_all

lemma update_monitored_symbols_calm:
  "\<exists>evs. trace (update_monitored_symbols gw s) = trace s @ evs \<and> calm evs"
proof -
  let ?s2 = "emit LockRelease (emit LockAcquire s)"
  let ?adds = "filter (\<lambda>symbol. symbol \<notin> set (symbols_to_monitor ?s2))
                 (symbols_needed (emit LockAcquire s))"
  obtain e where e: "trace (fold (\<lambda>symbol st. snd (add_symbol gw symbol st)) ?adds ?s2)
                      = trace ?s2 @ e" "calm e"
    using fold_add_symbol_calm by blast
  have "calm ([LockAcquire, LockRelease] @ e)"
    using e(2) by (intro calm_append) (simp_all add: calm_def)
  then show ?thesis
    using e(1) by (auto simp: update_monitored_symbols_def Let_def emit_def)
qed

text \<open>
  \<^verbatim>\<open>_close_trade\<close> and the entry callback keep the discipline: started with the lock
  free, they place orders and close positions only while it is free, and end with it
  free.
\<close>

lemma close_attempts_lock_discipline:
  "\<exists>evs. trace (snd (close_attempts gw ticket tr n s)) = trace s @ evs
         \<and> lock_discipline 0 evs = Some 0"
proof (induction n arbitrary: s)
  case 0
  show ?case by simp
next
  case (Suc n)
  obtain ok s1 where c: "broker_close_position gw ticket s = (ok, s1)"
    by fastforce
  then have t1: "trace s1 = trace s @ [ClosePosition ticket]"
    by (auto simp: broker_close_position_def case_prod_unfold)
  show ?case
  proof (cases ok)
    case True
    let ?s3 = "(emit LockAcquire s1)\<lparr>active_trades := remove1 tr (active_trades (emit LockAcquire s1))\<rparr>"
    obtain e where e: "trace (update_monitored_symbols gw ?s3) = trace ?s3 @ e" "calm e"
      using update_monitored_symbols_calm by blast
    have "lock_discipline 0 ([ClosePosition ticket, LockAcquire] @ e @ [LockRelease]) = Some 0"
      using e(2) by (simp add: calm_def lock_discipline_append)
    then show ?thesis
      using c True t1 e(1)
      by (auto simp: Let_def emit_def intro!: exI [of _ "[ClosePosition ticket, LockAcquire] @ e @ [LockRelease]"])
  next
    case False
    let ?s2 = "sleep (retry_delay s1) s1"
    obtain e where e: "trace (snd (close_attempts gw ticket tr n ?s2)) = trace ?s2 @ e"
      "lock_discipline 0 e = Some 0"
      using Suc.IH by blast
    have "lock_discipline 0 ([ClosePosition ticket, Sleep (retry_delay s1)] @ e) = Some 0"
      using e(2) by simp
    then show ?thesis
      using c False t1 e(1)
      by (auto simp: sleep_def intro!: exI [of _ "[ClosePosition ticket, Sleep (retry_delay s1)] @ e"])
  qed
qed

lemma internal_close_trade_lock_discipline:
  "\<exists>evs. trace (snd (internal_close_trade gw ticket s)) = trace s @ evs
         \<and> lock_discipline 0 evs = Some 0"
proof (cases "find (\<lambda>trade. at_ticket trade = ticket) (active_trades s)")
  case None
  then show ?thesis
    by (auto simp: internal_close_trade_def emit_def)
next
  case (Some tr)
  let ?s2 = "emit LockRelease (emit LockAcquire s)"
  obtain e where e: "trace (snd (close_attempts gw ticket tr (nat (max_retries ?s2)) ?s2))
                       = trace ?s2 @ e" "lock_discipline 0 e = Some 0"
    using close_attempts_lock_discipline by blast
  have "lock_discipline 0 ([LockAcquire, LockRelease] @ e) = Some 0"
    using e(2) by simp
  then show ?thesis
    using Some e(1)
    by (auto simp: internal_close_trade_def emit_def Let_def
        intro!: exI [of _ "[LockAcquire, LockRelease] @ e"])
qed

lemma place_attempts_lock_discipline:
  "\<exists>evs. trace (snd (place_attempts gw instruction price n s)) = trace s @ evs
         \<and> lock_discipline 0 evs = Some 0"
proof (induction n arbitrary: s)
  case 0
  show ?case by simp
next
  case (Suc n)
  obtain r s1 where c: "broker_place_market_order gw (order_of instruction) s = (r, s1)"
    by fastforce
  then have t1: "trace s1 = trace s @ [PlaceMarketOrder (order_of instruction)]"
    by (auto simp: broker_place_market_order_def case_prod_unfold)
  show ?case
  proof (cases "r \<noteq> None \<and> r \<noteq> Some 0")
    case True
    then show ?thesis
      using c t1
      by (auto simp: Let_def emit_def
          intro!: exI [of _ "[PlaceMarketOrder (order_of instruction), LockAcquire, LockRelease]"])
  next
    case False
    let ?s2 = "sleep (retry_delay s1) s1"
    obtain e where e: "trace (snd (place_attempts gw instruction price n ?s2)) = trace ?s2 @ e"
      "lock_discipline 0 e = Some 0"
      using Suc.IH by blast
    have "lock_discipline 0 ([PlaceMarketOrder (order_of instruction), Sleep (retry_delay s1)] @ e)
            = Some 0"
      using e(2) by simp
    then show ?thesis
      using c False t1 e(1)
      by (auto simp: sleep_def
          intro!: exI [of _ "[PlaceMarketOrder (order_of instruction), Sleep (retry_delay s1)] @ e"])
  qed
qed

lemma fold_execute_trade_lock_discipline:
  "\<exists>evs. trace (fold (\<lambda>instruction st. snd (execute_trade gw instruction price st)) xs s)
           = trace s @ evs \<and> lock_discipline 0 evs = Some 0"
proof (induction xs arbitrary: s)
  case Nil
  show ?case by simp
next
  case (Cons x xs)
  let ?s1 = "snd (execute_trade gw x price s)"
  obtain e1 where e1: "trace ?s1 = trace s @ e1" "lock_discipline 0 e1 = Some 0"
    using place_attempts_lock_discipline [of gw x price "nat (max_retries s)" s]
    by (auto simp: execute_trade_def)
  obtain e2 where e2: "trace (fold (\<lambda>instruction st. snd (execute_trade gw instruction price st))
                                xs ?s1) = trace ?s1 @ e2" "lock_discipline 0 e2 = Some 0"
    using Cons.IH by blast
  have "lock_discipline 0 (e1 @ e2) = Some 0"
    using e1(2) e2(2) by (simp add: lock_discipline_append)
  then show ?case
    using e1(1) e2(1) by (auto intro!: exI [of _ "e1 @ e2"])
qed

lemma on_entry_condition_lock_discipline:
  "\<exists>evs. trace (on_entry_condition gw symbol price s) = trace s @ evs
         \<and> lock_discipline 0 evs = Some 0"
proof -
  let ?s2 = "emit LockRelease (emit LockAcquire s)"
  let ?xs = "filter (entry_matches symbol price) (trade_instructions (emit LockAcquire s))"
  obtain e where e: "trace (fold (\<lambda>instruction st. snd (execute_trade gw instruction price st))
                              ?xs ?s2) = trace ?s2 @ e" "lock_discipline 0 e = Some 0"
    using fold_execute_trade_lock_discipline by blast
  have "lock_discipline 0 ([LockAcquire, LockRelease] @ e) = Some 0"
    using e(2) by simp
  then show ?thesis
    using e(1)
    by (auto simp: on_entry_condition_def emit_def Let_def
        intro!: exI [of _ "[LockAcquire, LockRelease] @ e"])
qed

text \<open>
  The operations on the backlog place no order and close no position at all.
\<close>

lemma add_trade_instruction_calm:
  "\<exists>evs. trace (snd (add_trade_instruction str_to_float gw instruction s)) = trace s @ evs
         \<and> calm evs"
proof (cases "validate_instruction str_to_float instruction")
  case (Inl err)
  then show ?thesis by (simp add: add_trade_instruction_def)
next
  case (Inr r)
  show ?thesis
  proof (cases r)
    case None
    with Inr show ?thesis by (simp add: add_trade_instruction_def)
  next
    case (Some ti)
    let ?s3 = "emit LockRelease ((emit LockAcquire s)
                 \<lparr>trade_instructions := trade_instructions (emit LockAcquire s) @ [ti\<lparr>ti_id := next_id s\<rparr>],
                  next_id := Suc (next_id (emit LockAcquire s))\<rparr>)"
    obtain e where e: "trace (snd (add_symbol gw (ti_symbol ti) ?s3)) = trace ?s3 @ e" "calm e"
      using add_symbol_calm by blast
    have "calm ([LockAcquire, LockRelease] @ e)"
      using e(2) by (intro calm_append) (simp_all add: calm_def)
    then show ?thesis
      using Inr Some e(1)
      by (auto simp: add_trade_instruction_def Let_def emit_def
          intro!: exI [of _ "[LockAcquire, LockRelease] @ e"])
  qed
qed

lemma remove_trade_instruction_calm:
  "\<exists>evs. trace (snd (remove_trade_instruction instruction_id s)) = trace s @ evs \<and> calm evs"
  by (auto simp: remove_trade_instruction_def Let_def emit_def calm_def
      split: option.splits intro!: exI [of _ "[LockAcquire, LockRelease]"])

lemma cancel_all_instructions_calm:
  "\<exists>evs. trace (snd (cancel_all_instructions gw s)) = trace s @ evs \<and> calm evs"
proof -
  let ?s2 = "(emit LockAcquire s)\<lparr>trade_instructions := []\<rparr>"
  obtain e where e: "trace (update_monitored_symbols gw ?s2) = trace ?s2 @ e" "calm e"
    using update_monitored_symbols_calm by blast
  have "calm ([LockAcquire] @ e @ [LockRelease])"
    using e(2) by (simp add: calm_def lock_discipline_append)
  then show ?thesis
    using e(1)
    by (auto simp: cancel_all_instructions_def Let_def emit_def
        intro!: exI [of _ "[LockAcquire] @ e @ [LockRelease]"])
qed

text \<open>
  Claim C1 says that no executor operation calls \<^verbatim>\<open>close_position\<close> or
  \<^verbatim>\<open>place_market_order\<close> while \<^verbatim>\<open>trade_lock\<close> is held. \<^verbatim>\<open>close_all_trades\<close> does: it
  holds the lock around its whole loop, so the \<^verbatim>\<open>close_position\<close> call made by
  \<^verbatim>\<open>_close_trade\<close> happens at lock depth one.
\<close>

theorem close_all_trades_calls_broker_under_lock:
  "trace (snd (close_all_trades mock_gateway (one_trade_system mock_online))) =
     [LockAcquire, LockAcquire, LockRelease, ClosePosition 1001,
      LockAcquire, LockAcquire, LockRelease, LockRelease, LockRelease]
   \<and> lock_discipline 0 (trace (snd (close_all_trades mock_gateway
                                        (one_trade_system mock_online)))) = None"
  by (simp add: close_all_trades_def internal_close_trade_def emit_def one_trade_system_def
      initial_system_def eurusd_trade_def numeral_3_eq_3 broker_close_position_def
      mock_gateway_def mock_online_def update_monitored_symbols_def symbols_needed_def
      remove_symbol_def Let_def)

section \<open>The monitored symbols over a poll cycle\<close>


text \<open>
  What the steps of a cycle do to the symbols of the monitor, the backlog and the
  registry.
\<close>

lemma watch_bound_cong:
  "symbols_to_monitor s' = symbols_to_monitor s \<Longrightarrow> trade_instructions s' = trade_instructions s \<Longrightarrow>
   active_trades s' = active_trades s \<Longrightarrow> watch_bound B s' = watch_bound B s"
  by (simp add: watch_bound_def symbols_needed_def)


lemma get_price_fields [simp]:
  "symbols_to_monitor (snd (get_price gw symbol s)) = symbols_to_monitor s"
  "trade_instructions (snd (get_price gw symbol s)) = trade_instructions s"
  "active_trades (snd (get_price gw symbol s)) = active_trades s"
  by (simp_all add: get_price_def fetch_price_def broker_is_connected_def broker_get_price_def
      case_prod_unfold split: option.splits)

lemma check_exit_condition_fields [simp]:
  "symbols_to_monitor (snd (check_exit_condition gw symbol pos s)) = symbols_to_monitor s"
  "trade_instructions (snd (check_exit_condition gw symbol pos s)) = trade_instructions s"
  "active_trades (snd (check_exit_condition gw symbol pos s)) = active_trades s"
proof -
  obtain r s1 where g: "get_price gw symbol s = (r, s1)" by fastforce
  have f: "symbols_to_monitor s1 = symbols_to_monitor s" "trade_instructions s1 = trade_instructions s"
    "active_trades s1 = active_trades s"
    using get_price_fields [of gw symbol s] by (simp_all add: g)
  have "snd (check_exit_condition gw symbol pos s) = s1"
    by (simp add: check_exit_condition_def g split: option.splits)
  then show "symbols_to_monitor (snd (check_exit_condition gw symbol pos s)) = symbols_to_monitor s"
    "trade_instructions (snd (check_exit_condition gw symbol pos s)) = trade_instructions s"
    "active_trades (snd (check_exit_condition gw symbol pos s)) = active_trades s"
    using f by simp_all
qed

lemma check_sl_condition_fields [simp]:
  "symbols_to_monitor (snd (check_sl_condition gw symbol pos s)) = symbols_to_monitor s"
  "trade_instructions (snd (check_sl_condition gw symbol pos s)) = trade_instructions s"
  "active_trades (snd (check_sl_condition gw symbol pos s)) = active_trades s"
proof -
  obtain r s1 where g: "get_price gw symbol s = (r, s1)" by fastforce
  have f: "symbols_to_monitor s1 = symbols_to_monitor s" "trade_instructions s1 = trade_instructions s"
    "active_trades s1 = active_trades s"
    using get_price_fields [of gw symbol s] by (simp_all add: g)
  have "snd (check_sl_condition gw symbol pos s) = s1"
    by (simp add: check_sl_condition_def g split: option.splits)
  then show "symbols_to_monitor (snd (check_sl_condition gw symbol pos s)) = symbols_to_monitor s"
    "trade_instructions (snd (check_sl_condition gw symbol pos s)) = trade_instructions s"
    "active_trades (snd (check_sl_condition gw symbol pos s)) = active_trades s"
    using f by simp_all
qed











lemma add_position_symbols_fields [simp]:
  "trade_instructions (add_position_symbols gw positions s) = trade_instructions s"
  "active_trades (add_position_symbols gw positions s) = active_trades s"
proof -
  have "\<And>xs. trade_instructions (fold (\<lambda>symbol st. if symbol \<notin> set (symbols_to_monitor st)
                        then snd (add_symbol gw symbol st) else st) xs s) = trade_instructions s
           \<and> active_trades (fold (\<lambda>symbol st. if symbol \<notin> set (symbols_to_monitor st)
                        then snd (add_symbol gw symbol st) else st) xs s) = active_trades s"
  proof -
    fix xs show "?thesis xs"
      by (induction xs arbitrary: s) simp_all
  qed
  then show "trade_instructions (add_position_symbols gw positions s) = trade_instructions s"
    "active_trades (add_position_symbols gw positions s) = active_trades s"
    by (simp_all add: add_position_symbols_def)
qed






end
